theory Spec2Isabelle
  imports Main "HOL-Library.Word" "HOL-Library.Mapping"
begin

unbundle bit_operations_syntax

section \<open>Bytes, strings and hexadecimal text\<close>

text \<open>
  A Go \<open>string\<close> is a sequence of bytes; it is modelled by \<^typ>\<open>string\<close>, whose characters
  are the 256 byte values. A \<open>[]byte\<close> is a list of 8-bit words.
\<close>

type_synonym byte = "8 word"

definition bytes_of :: "string \<Rightarrow> byte list" where
  "bytes_of s = map of_char s"

text \<open>\<open>encoding/hex\<close>: \<open>EncodeToString\<close> writes two lower-case digits per byte.\<close>

definition hextable :: string where
  "hextable = ''0123456789abcdef''"

fun EncodeToString :: "byte list \<Rightarrow> string" where
  "EncodeToString [] = []"
| "EncodeToString (b # bs) =
     hextable ! unat (drop_bit 4 b) # hextable ! unat (b AND 0x0f) # EncodeToString bs"

text \<open>
  \<open>fromHexChar\<close> accepts the digits and the letters a-f in either case. \<open>DecodeString\<close>
  fails on a character that is not a hexadecimal digit and on an odd length.
\<close>

definition fromHexChar :: "char \<Rightarrow> byte option" where
  "fromHexChar c =
     (let n = (of_char c :: nat) in
      if 48 \<le> n \<and> n \<le> 57 then Some (of_nat (n - 48))
      else if 97 \<le> n \<and> n \<le> 102 then Some (of_nat (n - 97 + 10))
      else if 65 \<le> n \<and> n \<le> 70 then Some (of_nat (n - 65 + 10))
      else None)"

fun DecodeString :: "string \<Rightarrow> byte list option" where
  "DecodeString [] = Some []"
| "DecodeString [p] = None"
| "DecodeString (p # q # r) =
     (case fromHexChar p of
        None \<Rightarrow> None
      | Some a \<Rightarrow>
         (case fromHexChar q of
            None \<Rightarrow> None
          | Some b \<Rightarrow>
             (case DecodeString r of
                None \<Rightarrow> None
              | Some bs \<Rightarrow> Some ((push_bit 4 a OR b) # bs))))"

text \<open>
  \<open>hmac.Equal\<close> is \<open>subtle.ConstantTimeCompare(a, b) == 1\<close>: the lengths are compared
  first, then the XOR of every pair of bytes is OR-ed into one accumulator, which is
  tested once at the end.
\<close>

definition ConstantTimeCompare :: "byte list \<Rightarrow> byte list \<Rightarrow> nat" where
  "ConstantTimeCompare x y =
     (if length x \<noteq> length y then 0
      else if foldl (\<lambda>v ab. v OR (fst ab XOR snd ab)) 0 (zip x y) = 0 then 1 else 0)"

definition hmac_Equal :: "byte list \<Rightarrow> byte list \<Rightarrow> bool" where
  "hmac_Equal mac1 mac2 = (ConstantTimeCompare mac1 mac2 = 1)"

section \<open>SHA-256 and HMAC (crypto/sha256, crypto/hmac)\<close>

text \<open>
  SHA-256 as in FIPS 180-4, on 32-bit quantities held in natural numbers with the
  reduction modulo \<open>2 ^ 32\<close> written out, and HMAC as in RFC 2104 with a block of
  64 bytes.
\<close>

definition K256 :: "nat list" where
  "K256 = [
     1116352408, 1899447441, 3049323471, 3921009573,
     961987163, 1508970993, 2453635748, 2870763221,
     3624381080, 310598401, 607225278, 1426881987,
     1925078388, 2162078206, 2614888103, 3248222580,
     3835390401, 4022224774, 264347078, 604807628,
     770255983, 1249150122, 1555081692, 1996064986,
     2554220882, 2821834349, 2952996808, 3210313671,
     3336571891, 3584528711, 113926993, 338241895,
     666307205, 773529912, 1294757372, 1396182291,
     1695183700, 1986661051, 2177026350, 2456956037,
     2730485921, 2820302411, 3259730800, 3345764771,
     3516065817, 3600352804, 4094571909, 275423344,
     430227734, 506948616, 659060556, 883997877,
     958139571, 1322822218, 1537002063, 1747873779,
     1955562222, 2024104815, 2227730452, 2361852424,
     2428436474, 2756734187, 3204031479, 3329325298]"

definition H256 :: "nat list" where
  "H256 = [
     1779033703, 3144134277, 1013904242, 2773480762,
     1359893119, 2600822924, 528734635, 1541459225]"

definition add32 :: "nat \<Rightarrow> nat \<Rightarrow> nat" where
  "add32 x y = (x + y) mod 2 ^ 32"

definition rotr :: "nat \<Rightarrow> nat \<Rightarrow> nat" where
  "rotr n x = (x div 2 ^ n) OR ((x * 2 ^ (32 - n)) mod 2 ^ 32)"

definition shr :: "nat \<Rightarrow> nat \<Rightarrow> nat" where
  "shr n x = x div 2 ^ n"

definition not32 :: "nat \<Rightarrow> nat" where
  "not32 x = 2 ^ 32 - 1 - x"

definition Ch :: "nat \<Rightarrow> nat \<Rightarrow> nat \<Rightarrow> nat" where
  "Ch x y z = (x AND y) XOR (not32 x AND z)"

definition Maj :: "nat \<Rightarrow> nat \<Rightarrow> nat \<Rightarrow> nat" where
  "Maj x y z = (x AND y) XOR (x AND z) XOR (y AND z)"

definition bsig0 :: "nat \<Rightarrow> nat" where
  "bsig0 x = rotr 2 x XOR rotr 13 x XOR rotr 22 x"

definition bsig1 :: "nat \<Rightarrow> nat" where
  "bsig1 x = rotr 6 x XOR rotr 11 x XOR rotr 25 x"

definition ssig0 :: "nat \<Rightarrow> nat" where
  "ssig0 x = rotr 7 x XOR rotr 18 x XOR shr 3 x"

definition ssig1 :: "nat \<Rightarrow> nat" where
  "ssig1 x = rotr 17 x XOR rotr 19 x XOR shr 10 x"

text \<open>The message schedule: words 16 to 63 are appended to the 16 words of the block.\<close>

definition sched_word :: "nat \<Rightarrow> nat \<Rightarrow> nat \<Rightarrow> nat \<Rightarrow> nat" where
  "sched_word w2 w7 w15 w16 = add32 (add32 (add32 (ssig1 w2) w7) (ssig0 w15)) w16"

definition sched_step :: "nat list \<Rightarrow> nat \<Rightarrow> nat list" where
  "sched_step ws t =
     ws @ [sched_word (ws ! (t - 2)) (ws ! (t - 7)) (ws ! (t - 15)) (ws ! (t - 16))]"

definition schedule :: "nat list \<Rightarrow> nat list" where
  "schedule blk = foldl sched_step blk [16..<64]"

text \<open>One round on the working variables \<open>[a, b, c, d, e, f, g, h]\<close>.\<close>

definition T1 :: "nat \<Rightarrow> nat \<Rightarrow> nat \<Rightarrow> nat \<Rightarrow> nat \<Rightarrow> nat \<Rightarrow> nat" where
  "T1 e f g h k w = add32 (add32 (add32 (add32 h (bsig1 e)) (Ch e f g)) k) w"

definition T2 :: "nat \<Rightarrow> nat \<Rightarrow> nat \<Rightarrow> nat" where
  "T2 a b c = add32 (bsig0 a) (Maj a b c)"

definition round_upd :: "nat list \<Rightarrow> nat \<Rightarrow> nat \<Rightarrow> nat list" where
  "round_upd s t1 t2 =
     [add32 t1 t2, s ! 0, s ! 1, s ! 2, add32 (s ! 3) t1, s ! 4, s ! 5, s ! 6]"

definition round256 :: "nat list \<Rightarrow> nat \<times> nat \<Rightarrow> nat list" where
  "round256 s kw =
     round_upd s (T1 (s ! 4) (s ! 5) (s ! 6) (s ! 7) (fst kw) (snd kw))
                 (T2 (s ! 0) (s ! 1) (s ! 2))"

definition compress :: "nat list \<Rightarrow> nat list \<Rightarrow> nat list" where
  "compress hs blk = map2 add32 hs (foldl round256 hs (zip K256 (schedule blk)))"

definition be32 :: "byte \<Rightarrow> byte \<Rightarrow> byte \<Rightarrow> byte \<Rightarrow> nat" where
  "be32 a b c d = unat a * 2 ^ 24 + unat b * 2 ^ 16 + unat c * 2 ^ 8 + unat d"

fun words_of :: "byte list \<Rightarrow> nat list" where
  "words_of (a # b # c # d # r) = be32 a b c d # words_of r"
| "words_of _ = []"

fun blocks :: "byte list \<Rightarrow> byte list list" where
  "blocks [] = []"
| "blocks (x # xs) = take 64 (x # xs) # blocks (drop 64 (x # xs))"

definition be4 :: "nat \<Rightarrow> byte list" where
  "be4 w = [of_nat (w div 2 ^ 24 mod 256), of_nat (w div 2 ^ 16 mod 256),
            of_nat (w div 2 ^ 8 mod 256), of_nat (w mod 256)]"

definition be8 :: "nat \<Rightarrow> byte list" where
  "be8 n = be4 (n div 2 ^ 32 mod 2 ^ 32) @ be4 (n mod 2 ^ 32)"

definition pad256 :: "byte list \<Rightarrow> byte list" where
  "pad256 m =
     m @ [0x80] @ replicate ((119 - length m mod 64) mod 64) 0 @ be8 (8 * length m)"

definition sha256 :: "byte list \<Rightarrow> byte list" where
  "sha256 m = concat (map be4 (foldl compress H256 (map words_of (blocks (pad256 m)))))"

definition hmac_key :: "byte list \<Rightarrow> byte list" where
  "hmac_key key =
     (let k0 = (if 64 < length key then sha256 key else key)
      in k0 @ replicate (64 - length k0) 0)"

definition hmac_sha256 :: "byte list \<Rightarrow> byte list \<Rightarrow> byte list" where
  "hmac_sha256 key m =
     sha256 (map (\<lambda>b. b XOR 0x5c) (hmac_key key)
             @ sha256 (map (\<lambda>b. b XOR 0x36) (hmac_key key) @ m))"

section \<open>Package hash: the keyed digest\<close>

text \<open>
  \<open>generateSHA256HMAC(secret, v...)\<close> joins the fields with the empty separator and
  returns the raw HMAC-SHA256; \<open>GenerateSHA256HMAC\<close> is its hexadecimal text.
\<close>

definition generateSHA256HMAC :: "string \<Rightarrow> string list \<Rightarrow> byte list" where
  "generateSHA256HMAC secret v = hmac_sha256 (bytes_of secret) (bytes_of (concat v))"

definition GenerateSHA256HMAC :: "string \<Rightarrow> string list \<Rightarrow> string" where
  "GenerateSHA256HMAC secret v = EncodeToString (generateSHA256HMAC secret v)"

section \<open>Requests and headers (net/http)\<close>

text \<open>
  An \<open>http.Header\<close> is a map from canonical header names to the list of values of
  that name. \<open>Get\<close> and \<open>Add\<close> canonicalise the name they are given
  (\<open>textproto.CanonicalMIMEHeaderKey\<close>): a name made of token characters gets an
  upper-case first letter and an upper-case letter after every hyphen, all other
  letters in lower case; any other name is left as it is.
\<close>

type_synonym Header = "(string, string list) mapping"

definition isLowerAZ :: "char \<Rightarrow> bool" where
  "isLowerAZ c = (97 \<le> (of_char c :: nat) \<and> (of_char c :: nat) \<le> 122)"

definition isUpperAZ :: "char \<Rightarrow> bool" where
  "isUpperAZ c = (65 \<le> (of_char c :: nat) \<and> (of_char c :: nat) \<le> 90)"

definition isDigit09 :: "char \<Rightarrow> bool" where
  "isDigit09 c = (48 \<le> (of_char c :: nat) \<and> (of_char c :: nat) \<le> 57)"

definition validHeaderFieldByte :: "char \<Rightarrow> bool" where
  "validHeaderFieldByte c =
     (isLowerAZ c \<or> isUpperAZ c \<or> isDigit09 c \<or>
      c \<in> set [CHR ''!'', CHR ''#'', CHR ''$'', CHR ''%'', CHR ''&'', CHR 0x27, CHR ''*'',
                 CHR ''+'', CHR ''-'', CHR ''.'', CHR ''^'', CHR ''_'', CHR 0x60,
                 CHR ''|'', CHR ''~''])"

definition canonByte :: "bool \<Rightarrow> char \<Rightarrow> char" where
  "canonByte upper c =
     (if upper \<and> isLowerAZ c then char_of ((of_char c :: nat) - 32)
      else if \<not> upper \<and> isUpperAZ c then char_of ((of_char c :: nat) + 32)
      else c)"

fun canonLoop :: "bool \<Rightarrow> string \<Rightarrow> string" where
  "canonLoop upper [] = []"
| "canonLoop upper (c # cs) =
     canonByte upper c # canonLoop (canonByte upper c = CHR ''-'') cs"

definition CanonicalMIMEHeaderKey :: "string \<Rightarrow> string" where
  "CanonicalMIMEHeaderKey s =
     (if list_all validHeaderFieldByte s then canonLoop True s else s)"

text \<open>\<open>h[key]\<close>: the values stored under a key, none when the key is absent.\<close>

definition Header_index :: "Header \<Rightarrow> string \<Rightarrow> string list" where
  "Header_index h key = (case Mapping.lookup h key of None \<Rightarrow> [] | Some vs \<Rightarrow> vs)"

text \<open>\<open>Header.Values(key)\<close>, \<open>Header.Get(key)\<close> (the first value, or the empty string)
  and \<open>Header.Add(key, value)\<close> (append to the values of the key).\<close>

definition Header_Values :: "Header \<Rightarrow> string \<Rightarrow> string list" where
  "Header_Values h key = Header_index h (CanonicalMIMEHeaderKey key)"

definition Header_Get :: "Header \<Rightarrow> string \<Rightarrow> string" where
  "Header_Get h key =
     (case Header_index h (CanonicalMIMEHeaderKey key) of [] \<Rightarrow> [] | v # vs \<Rightarrow> v)"

definition Header_Add :: "Header \<Rightarrow> string \<Rightarrow> string \<Rightarrow> Header" where
  "Header_Add h key val =
     Mapping.update (CanonicalMIMEHeaderKey key)
       (Header_index h (CanonicalMIMEHeaderKey key) @ [val]) h"

text \<open>\<open>Header.Set(key, value)\<close>, which the bundled test uses: the value replaces all
  values of the key.\<close>

definition Header_Set :: "Header \<Rightarrow> string \<Rightarrow> string \<Rightarrow> Header" where
  "Header_Set h key val = Mapping.update (CanonicalMIMEHeaderKey key) [val] h"

text \<open>
  The request: the fields the package reads and writes are named, every other field of
  \<open>http.Request\<close> and \<open>url.URL\<close> lives in the extension part of the record. A request
  is one that \<open>net/http\<close> built (\<open>NewRequest\<close>, or the server): its URL and its
  header map are allocated.
\<close>

record url =
  Scheme :: string
  Host :: string
  Path :: string
  RawQuery :: string

record Request =
  Method :: string
  URL :: url
  Header :: Header

section \<open>The clock and RFC 3339 text (package time)\<close>

text \<open>
  The package calls \<open>time.Now()\<close>, \<open>Time.Format(time.RFC3339)\<close>,
  \<open>time.Parse(time.RFC3339, s)\<close> and \<open>Time.Unix()\<close>. The value \<open>time.Now()\<close>
  returns is an argument of the operation that reads the clock. The three functions
  are fields of a record the operations take as their first argument: \<open>'t\<close> is
  \<open>time.Time\<close>, \<open>'e\<close> the error of a failed parse, and \<open>Unix\<close> is an \<open>int64\<close>.
\<close>

type_synonym int64 = "64 word"

record ('t, 'e) TimeLib =
  Format_RFC3339 :: "'t \<Rightarrow> string"
  Parse_RFC3339 :: "string \<Rightarrow> 'e + 't"
  Unix :: "'t \<Rightarrow> int64"

section \<open>Package hash: signing and validating\<close>

record generator =
  g_id :: string
  g_secret :: string

record validator =
  validity :: int64

definition NewGenerator :: "string \<Rightarrow> string \<Rightarrow> generator" where
  "NewGenerator i s = \<lparr>g_id = i, g_secret = s\<rparr>"

definition NewValidator :: "int64 \<Rightarrow> validator" where
  "NewValidator w = \<lparr>validity = w\<rparr>"

text \<open>
  \<open>AddAuthHeaders\<close> formats the clock reading once, signs method, path and that text,
  and calls \<open>Header.Add\<close> three times. It returns its argument; the model returns the
  request as it is after the call.
\<close>

definition AddAuthHeaders ::
  "('t, 'e) TimeLib \<Rightarrow> generator \<Rightarrow> 't \<Rightarrow> 'a Request_scheme \<Rightarrow> 'a Request_scheme" where
  "AddAuthHeaders L g now r =
     (let timeStamp = Format_RFC3339 L now;
          sig = GenerateSHA256HMAC (g_secret g) [Method r, Path (URL r), timeStamp]
      in r\<lparr>Header :=
             Header_Add
               (Header_Add (Header_Add (Header r) ''x-signature'' sig) ''x-api-key-id'' (g_id g))
               ''x-timestamp'' timeStamp\<rparr>)"

text \<open>
  The errors of \<open>Validate\<close>, in the order of the checks, with the text of each:
  "missing required headers", "missing signature header", "invalid signature format",
  "missing timestamp header", "error parsing timestamp: ..." (with the error of
  \<open>time.Parse\<close>), "expired access", "invalid hmac signature".
\<close>

datatype 'e verror =
    MissingRequiredHeaders
  | MissingSignatureHeader
  | InvalidSignatureFormat
  | MissingTimestampHeader
  | ErrorParsingTimestamp 'e
  | ExpiredAccess
  | InvalidHmacSignature

text \<open>
  \<open>Validate\<close> returns the pair \<open>(bool, error)\<close> of the source, \<open>None\<close> for \<open>nil\<close>.
  The test \<open>now >= timeStamp.Unix() + v.validity\<close> is on \<open>int64\<close>: the sum wraps around
  and the comparison is signed.
\<close>

definition Validate ::
  "('t, 'e) TimeLib \<Rightarrow> validator \<Rightarrow> 't \<Rightarrow> 'a Request_scheme \<Rightarrow> string
     \<Rightarrow> bool \<times> 'e verror option" where
  "Validate L v clock r secret =
     (if Mapping.is_empty (Header r) then (False, Some MissingRequiredHeaders)
      else
       (let sigStr = Header_Get (Header r) ''x-signature'' in
        if sigStr = [] then (False, Some MissingSignatureHeader)
        else
         (case DecodeString sigStr of
            None \<Rightarrow> (False, Some InvalidSignatureFormat)
          | Some sig \<Rightarrow>
             (let timeStr = Header_Get (Header r) ''x-timestamp'' in
              if timeStr = [] then (False, Some MissingTimestampHeader)
              else
               (case Parse_RFC3339 L timeStr of
                  Inl e \<Rightarrow> (False, Some (ErrorParsingTimestamp e))
                | Inr timeStamp \<Rightarrow>
                   (let now = Unix L clock in
                    if sint (Unix L timeStamp + validity v) \<le> sint now
                    then (False, Some ExpiredAccess)
                    else if \<not> hmac_Equal sig
                              (generateSHA256HMAC secret [Method r, Path (URL r), timeStr])
                    then (False, Some InvalidHmacSignature)
                    else (True, None)))))))"

section \<open>A civil-calendar instance of the clock interface\<close>

text \<open>
  An executable instance of the three functions of package \<open>time\<close>, used to run the
  operations on concrete requests: an instant is a number of seconds since
  1970-01-01T00:00:00Z with the offset of its zone in seconds east of UTC (fractions
  of a second are dropped by the RFC 3339 layout and by \<open>Unix\<close>). Dates are those of
  the proleptic Gregorian calendar.
\<close>

record Time =
  unixSec :: int
  zoneOffset :: int

text \<open>Days since 1970-01-01 to year, month and day, by eras of 400 years.\<close>

definition civil_of_mp :: "int \<Rightarrow> int \<Rightarrow> int \<Rightarrow> int \<times> int \<times> int" where
  "civil_of_mp y doy mp =
     (if mp < 10 then (y, mp + 3, doy - (153 * mp + 2) div 5 + 1)
      else (y + 1, mp - 9, doy - (153 * mp + 2) div 5 + 1))"

definition civil_of_doy :: "int \<Rightarrow> int \<Rightarrow> int \<times> int \<times> int" where
  "civil_of_doy y doy = civil_of_mp y doy ((5 * doy + 2) div 153)"

definition civil_of_yoe :: "int \<Rightarrow> int \<Rightarrow> int \<Rightarrow> int \<times> int \<times> int" where
  "civil_of_yoe era doe yoe =
     civil_of_doy (yoe + era * 400) (doe - (365 * yoe + yoe div 4 - yoe div 100))"

definition civil_of_doe :: "int \<Rightarrow> int \<Rightarrow> int \<times> int \<times> int" where
  "civil_of_doe era doe =
     civil_of_yoe era doe ((doe - doe div 1460 + doe div 36524 - doe div 146096) div 365)"

definition civil_from_days :: "int \<Rightarrow> int \<times> int \<times> int" where
  "civil_from_days z = civil_of_doe ((z + 719468) div 146097) ((z + 719468) mod 146097)"

definition days_of_era :: "int \<Rightarrow> int \<Rightarrow> int \<Rightarrow> int" where
  "days_of_era era yoe doy =
     era * 146097 + (yoe * 365 + yoe div 4 - yoe div 100 + doy) - 719468"

definition days_of_year :: "int \<Rightarrow> int \<Rightarrow> int \<Rightarrow> int" where
  "days_of_year y' mp d = days_of_era (y' div 400) (y' mod 400) ((153 * mp + 2) div 5 + d - 1)"

definition days_from_civil :: "int \<Rightarrow> int \<Rightarrow> int \<Rightarrow> int" where
  "days_from_civil y m d =
     (if m \<le> 2 then days_of_year (y - 1) (m + 9) d else days_of_year y (m - 3) d)"

definition isLeap :: "int \<Rightarrow> bool" where
  "isLeap y = (if y mod 100 = 0 then y mod 400 = 0 else y mod 4 = 0)"

definition daysIn :: "int \<Rightarrow> int \<Rightarrow> int" where
  "daysIn y m =
     (if m = 2 then (if isLeap y then 29 else 28)
      else if m = 4 \<or> m = 6 \<or> m = 9 \<or> m = 11 then 30 else 31)"

text \<open>
  \<open>appendInt(b, x, width)\<close>: the sign, then the decimal digits padded with zeros to the
  width.
\<close>

fun decimal :: "nat \<Rightarrow> string" where
  "decimal n =
     (if n < 10 then [char_of (48 + n)] else decimal (n div 10) @ [char_of (48 + n mod 10)])"

declare decimal.simps [simp del]

definition appendInt :: "int \<Rightarrow> nat \<Rightarrow> string" where
  "appendInt x width =
     (if x < 0 then ''-'' else [])
     @ replicate (width - length (decimal (nat \<bar>x\<bar>))) (CHR ''0'') @ decimal (nat \<bar>x\<bar>)"

text \<open>
  The zone of the layout element \<open>Z07:00\<close>: \<open>Z\<close> for the offset 0, else the sign and
  the hours and minutes of the offset in whole minutes, which is rounded towards zero.
\<close>

definition zone_digits :: "int \<Rightarrow> string" where
  "zone_digits minutes = appendInt (minutes div 60) 2 @ '':'' @ appendInt (minutes mod 60) 2"

definition zone_text :: "int \<Rightarrow> string" where
  "zone_text off =
     (if off = 0 then ''Z''
      else if off \<le> - 60 then CHR ''-'' # zone_digits (\<bar>off\<bar> div 60)
      else CHR ''+'' # zone_digits (\<bar>off\<bar> div 60))"

text \<open>\<open>Time.Format\<close> with the layout \<open>2006-01-02T15:04:05Z07:00\<close>.\<close>

definition date_text :: "int \<times> int \<times> int \<Rightarrow> string" where
  "date_text ymd =
     appendInt (fst ymd) 4 @ ''-'' @ appendInt (fst (snd ymd)) 2 @ ''-''
     @ appendInt (snd (snd ymd)) 2"

definition clock_text :: "int \<Rightarrow> string" where
  "clock_text s =
     appendInt (s div 3600) 2 @ '':'' @ appendInt (s div 60 mod 60) 2 @ '':''
     @ appendInt (s mod 60) 2"

definition format_local :: "int \<Rightarrow> int \<Rightarrow> string" where
  "format_local l off =
     date_text (civil_from_days (l div 86400)) @ ''T'' @ clock_text (l mod 86400) @ zone_text off"

definition Time_Format_RFC3339 :: "Time \<Rightarrow> string" where
  "Time_Format_RFC3339 t = format_local (unixSec t + zoneOffset t) (zoneOffset t)"

text \<open>
  \<open>time.Parse\<close> with the same layout reads the text from left to right. \<open>getnum\<close>
  reads two digits, or one digit when the field is not of fixed width (only the hour
  is not); the year is four digits; the bytes between the fields must be those of the
  layout; a fraction of a second, after a period or a comma, is read and dropped; the
  zone is \<open>Z\<close> or a sign, two digits, a colon and two digits, with at most 24 hours and
  at most 60 minutes; nothing may follow. Month, day, hour, minute and second must be
  in range.
\<close>

definition digitVal :: "char \<Rightarrow> int" where
  "digitVal c = int (of_char c) - 48"

fun getnum :: "bool \<Rightarrow> string \<Rightarrow> (int \<times> string) option" where
  "getnum fixed [] = None"
| "getnum fixed [c] = (if isDigit09 c \<and> \<not> fixed then Some (digitVal c, []) else None)"
| "getnum fixed (c # d # r) =
     (if isDigit09 c
      then (if isDigit09 d then Some (digitVal c * 10 + digitVal d, r)
            else if fixed then None else Some (digitVal c, d # r))
      else None)"

definition getyear :: "string \<Rightarrow> (int \<times> string) option" where
  "getyear s =
     (if 4 \<le> length s \<and> list_all isDigit09 (take 4 s)
      then Some (foldl (\<lambda>n c. 10 * n + digitVal c) 0 (take 4 s), drop 4 s)
      else None)"

fun skip_byte :: "char \<Rightarrow> string \<Rightarrow> string option" where
  "skip_byte p [] = None"
| "skip_byte p (c # r) = (if c = p then Some r else None)"

definition commaOrPeriod :: "char \<Rightarrow> bool" where
  "commaOrPeriod c = (c = CHR ''.'' \<or> c = CHR '','')"

fun skip_fraction :: "string \<Rightarrow> string" where
  "skip_fraction (c # d # r) =
     (if commaOrPeriod c \<and> isDigit09 d then dropWhile isDigit09 r else c # d # r)"
| "skip_fraction s = s"

definition zone_sign :: "char \<Rightarrow> int option" where
  "zone_sign c =
     (if c = CHR ''+'' then Some 1 else if c = CHR ''-'' then Some (- 1) else None)"

definition parse_offset :: "string \<Rightarrow> int option" where
  "parse_offset z =
     (if length z = 6 \<and> z ! 3 = CHR '':''
      then (case getnum True (take 2 (drop 1 z)) of
              None \<Rightarrow> None
            | Some (hr, r1) \<Rightarrow>
               (case getnum True (take 2 (drop 4 z)) of
                  None \<Rightarrow> None
                | Some (mm, r2) \<Rightarrow>
                   (if hr \<le> 24 \<and> mm \<le> 60
                    then (case zone_sign (z ! 0) of
                            None \<Rightarrow> None
                          | Some sg \<Rightarrow> Some (sg * ((hr * 60 + mm) * 60)))
                    else None)))
      else None)"

fun parse_zone :: "string \<Rightarrow> int option" where
  "parse_zone [] = None"
| "parse_zone (c # r) =
     (if c = CHR ''Z'' then (if r = [] then Some 0 else None) else parse_offset (c # r))"

definition parse_date :: "string \<Rightarrow> ((int \<times> int \<times> int) \<times> string) option" where
  "parse_date s =
     (case getyear s of None \<Rightarrow> None | Some (y, s1) \<Rightarrow>
     (case skip_byte (CHR ''-'') s1 of None \<Rightarrow> None | Some s2 \<Rightarrow>
     (case getnum True s2 of None \<Rightarrow> None | Some (mo, s3) \<Rightarrow>
     (case skip_byte (CHR ''-'') s3 of None \<Rightarrow> None | Some s4 \<Rightarrow>
     (case getnum True s4 of None \<Rightarrow> None | Some (d, s5) \<Rightarrow>
        (if 1 \<le> mo \<and> mo \<le> 12 \<and> 1 \<le> d \<and> d \<le> daysIn y mo
         then Some ((y, mo, d), s5) else None))))))"

definition parse_clock :: "string \<Rightarrow> ((int \<times> int \<times> int) \<times> string) option" where
  "parse_clock s =
     (case getnum False s of None \<Rightarrow> None | Some (h, s1) \<Rightarrow>
     (case skip_byte (CHR '':'') s1 of None \<Rightarrow> None | Some s2 \<Rightarrow>
     (case getnum True s2 of None \<Rightarrow> None | Some (mi, s3) \<Rightarrow>
     (case skip_byte (CHR '':'') s3 of None \<Rightarrow> None | Some s4 \<Rightarrow>
     (case getnum True s4 of None \<Rightarrow> None | Some (sec, s5) \<Rightarrow>
        (if h < 24 \<and> mi < 60 \<and> sec < 60
         then Some ((h, mi, sec), skip_fraction s5) else None))))))"

definition civil_seconds :: "int \<times> int \<times> int \<Rightarrow> int \<times> int \<times> int \<Rightarrow> int" where
  "civil_seconds ymd hms =
     days_from_civil (fst ymd) (fst (snd ymd)) (snd (snd ymd)) * 86400
     + fst hms * 3600 + fst (snd hms) * 60 + snd (snd hms)"

definition Time_Parse_RFC3339 :: "string \<Rightarrow> unit + Time" where
  "Time_Parse_RFC3339 s =
     (case parse_date s of None \<Rightarrow> Inl () | Some (ymd, s1) \<Rightarrow>
     (case skip_byte (CHR ''T'') s1 of None \<Rightarrow> Inl () | Some s2 \<Rightarrow>
     (case parse_clock s2 of None \<Rightarrow> Inl () | Some (hms, s3) \<Rightarrow>
     (case parse_zone s3 of None \<Rightarrow> Inl () | Some off \<Rightarrow>
        Inr \<lparr>unixSec = civil_seconds ymd hms - off, zoneOffset = off\<rparr>))))"

definition Time_Unix :: "Time \<Rightarrow> int64" where
  "Time_Unix t = word_of_int (unixSec t)"

definition go_time :: "(Time, unit) TimeLib" where
  "go_time = \<lparr>Format_RFC3339 = Time_Format_RFC3339,
              Parse_RFC3339 = Time_Parse_RFC3339,
              Unix = Time_Unix\<rparr>"

section \<open>Notation and example data\<close>

text \<open>The two headers \<open>Validate\<close> reads, as it reads them.\<close>

abbreviation sigStr_of :: "'a Request_scheme \<Rightarrow> string" where
  "sigStr_of r \<equiv> Header_Get (Header r) ''x-signature''"

abbreviation timeStr_of :: "'a Request_scheme \<Rightarrow> string" where
  "timeStr_of r \<equiv> Header_Get (Header r) ''x-timestamp''"

text \<open>
  The request, the generator and the window of the bundled test
  \<open>TestGeneratorAndValidator\<close>, and a clock reading: 2025-06-01T12:34:56Z.
\<close>

definition ex_request :: Request where
  "ex_request =
     \<lparr>Method = ''GET'',
      URL = \<lparr>Scheme = ''https'', Host = ''api.example.com'', Path = ''/resource'',
             RawQuery = []\<rparr>,
      Header = Mapping.empty\<rparr>"

definition ex_generator :: generator where
  "ex_generator = NewGenerator ''test-key'' ''supersecret''"

definition ex_validator :: validator where
  "ex_validator = NewValidator 60"

definition ex_clock :: Time where
  "ex_clock = \<lparr>unixSec = 1748781296, zoneOffset = 0\<rparr>"

definition later :: "int \<Rightarrow> Time \<Rightarrow> Time" where
  "later n t = t\<lparr>unixSec := unixSec t + n\<rparr>"

text \<open>The example request signed at the example clock reading.\<close>

definition ex_signed :: Request where
  "ex_signed = AddAuthHeaders go_time ex_generator ex_clock ex_request"

definition ex_mac :: "byte list" where
  "ex_mac = generateSHA256HMAC ''supersecret'' [''GET'', ''/resource'', ''2025-06-01T12:34:56Z'']"

text \<open>
  Requests with headers set by hand: one with an unrelated header only, one whose only
  header is a well-formed signature, one whose only header is a signature that is not
  hexadecimal, and one that already carries a signature and a timestamp.
\<close>

definition ex_plain :: Request where
  "ex_plain = ex_request\<lparr>Header := Header_Add Mapping.empty ''Accept'' ''text/plain''\<rparr>"

definition ex_signature_only :: Request where
  "ex_signature_only = ex_request\<lparr>Header := Header_Add Mapping.empty ''x-signature'' ''deadbeef''\<rparr>"

definition ex_not_hex :: Request where
  "ex_not_hex = ex_request\<lparr>Header := Header_Add Mapping.empty ''x-signature'' ''zz''\<rparr>"

definition ex_stale :: Request where
  "ex_stale =
     ex_request\<lparr>Header :=
       Header_Add (Header_Add Mapping.empty ''x-signature'' ''deadbeef'')
         ''x-timestamp'' ''2025-06-01T12:00:00Z''\<rparr>"

text \<open>A validator whose window is the largest \<open>int64\<close>.\<close>

definition ex_forever :: validator where
  "ex_forever = NewValidator 0x7fffffffffffffff"

text \<open>
  The requests of the bundled test \<open>TestGeneratorAndValidator\<close>, after the signature
  was overwritten with \<open>deadbeef\<close>, and after the request was signed again and its
  timestamp overwritten with the time two minutes before the clock.
\<close>

definition test_tampered :: Request where
  "test_tampered = ex_signed\<lparr>Header := Header_Set (Header ex_signed) ''x-signature'' ''deadbeef''\<rparr>"

definition test_resigned :: Request where
  "test_resigned = AddAuthHeaders go_time ex_generator ex_clock test_tampered"

definition test_expired :: Request where
  "test_expired =
     test_resigned\<lparr>Header :=
       Header_Set (Header test_resigned) ''x-timestamp''
         (Format_RFC3339 go_time (later (- 120) ex_clock))\<rparr>"

section \<open>Facts about the library functions\<close>

subsection \<open>\<open>hmac.Equal\<close> decides equality of byte slices\<close>

lemma xor_zero_iff: "(a::byte) XOR b = 0 \<longleftrightarrow> a = b"
  by (auto simp: bit_eq_iff bit_xor_iff)

lemma acc_zero:
  "foldl (\<lambda>v ab. v OR (fst ab XOR snd ab)) (a::byte) xs = 0
     \<longleftrightarrow> a = 0 \<and> list_all (\<lambda>ab. fst ab = snd ab) xs"
proof (induction xs arbitrary: a)
  case Nil
  show ?case by simp
next
  case (Cons x xs)
  show ?case
    by (simp only: foldl_Cons Cons.IH or_eq_0_iff xor_zero_iff list.pred_inject conj_assoc)
qed

lemma zip_all_eq:
  "length x = length y \<Longrightarrow> list_all (\<lambda>ab. fst ab = snd ab) (zip x y) \<longleftrightarrow> x = y"
  by (induction x y rule: list_induct2) simp_all

lemma hmac_Equal_iff: "hmac_Equal x y \<longleftrightarrow> x = y"
proof (cases "length x = length y")
  case True
  then show ?thesis
    by (simp add: hmac_Equal_def ConstantTimeCompare_def acc_zero zip_all_eq)
next
  case False
  then have "x \<noteq> y" by auto
  with False show ?thesis
    by (simp add: hmac_Equal_def ConstantTimeCompare_def)
qed

subsection \<open>Hexadecimal text\<close>

lemma nibble_cases: "k < (16::nat) \<Longrightarrow> k \<in> {0,1,2,3,4,5,6,7,8,9,10,11,12,13,14,15}"
  by (simp add: insert_iff) arith

lemma fromHexChar_hextable: "k < 16 \<Longrightarrow> fromHexChar (hextable ! k) = Some (of_nat k)"
proof -
  assume "k < 16"
  then have "k \<in> {0,1,2,3,4,5,6,7,8,9,10,11,12,13,14,15}" by (rule nibble_cases)
  then show ?thesis
    by (elim insertE emptyE) (simp_all add: fromHexChar_def hextable_def)
qed

lemma hi_nibble_lt: "unat (drop_bit 4 (b::byte)) < 16"
proof -
  have "unat (drop_bit 4 b) = drop_bit 4 (unat b)" by (simp only: unat_drop_bit_eq)
  then have "unat (drop_bit 4 b) = unat b div 2 ^ 4" by (simp only: drop_bit_eq_div)
  moreover have "unat b < 2 ^ 8" using unsigned_less [of b] by simp
  ultimately show ?thesis by simp
qed

lemma lo_nibble_lt: "unat ((b::byte) AND 0x0f) < 16"
proof -
  have "unat (b AND 15) \<le> unat (15 :: byte)"
    by (rule word_and_le1 [THEN word_le_nat_alt [THEN iffD1]])
  then show ?thesis by simp
qed

lemma byte_split: "push_bit 4 (drop_bit 4 b) OR (b AND 0x0f) = (b::byte)"
proof -
  have m: "(0x0f :: byte) = mask 4" by (simp add: mask_eq_exp_minus_1)
  show ?thesis
    unfolding m by (rule bit_eqI) (auto simp: bit_simps)
qed

lemma DecodeString_EncodeToString: "DecodeString (EncodeToString bs) = Some bs"
proof (induction bs)
  case Nil
  show ?case by simp
next
  case (Cons b bs)
  have hi: "fromHexChar (hextable ! unat (drop_bit 4 b)) = Some (drop_bit 4 b)"
    using fromHexChar_hextable [OF hi_nibble_lt, of b] by simp
  have lo: "fromHexChar (hextable ! unat (b AND 0x0f)) = Some (b AND 0x0f)"
    using fromHexChar_hextable [OF lo_nibble_lt, of b] by simp
  show ?case
    by (simp add: hi lo Cons.IH byte_split)
qed

lemma length_EncodeToString: "length (EncodeToString bs) = 2 * length bs"
  by (induction bs) simp_all

subsection \<open>The digest has 32 bytes\<close>

lemma length_round256: "length (round256 s kw) = 8"
  by (simp add: round256_def round_upd_def)

lemma length_foldl_round256: "length s = 8 \<Longrightarrow> length (foldl round256 s xs) = 8"
  by (induction xs arbitrary: s) (simp_all add: length_round256)

lemma length_compress: "length hs = 8 \<Longrightarrow> length (compress hs blk) = 8"
  by (simp add: compress_def length_foldl_round256)

lemma length_foldl_compress: "length hs = 8 \<Longrightarrow> length (foldl compress hs bs) = 8"
  by (induction bs arbitrary: hs) (simp_all add: length_compress)

lemma length_concat_be4: "length (concat (map be4 ws)) = 4 * length ws"
  by (induction ws) (simp_all add: be4_def)

lemma length_sha256: "length (sha256 m) = 32"
  by (simp add: sha256_def length_concat_be4 length_foldl_compress H256_def)

lemma length_hmac_sha256: "length (hmac_sha256 key m) = 32"
  by (simp add: hmac_sha256_def length_sha256)

lemma length_GenerateSHA256HMAC: "length (GenerateSHA256HMAC secret v) = 64"
  by (simp add: GenerateSHA256HMAC_def generateSHA256HMAC_def length_EncodeToString length_hmac_sha256)

lemma GenerateSHA256HMAC_nonempty: "GenerateSHA256HMAC secret v \<noteq> []"
  using length_GenerateSHA256HMAC [of secret v] by auto

lemma DecodeString_GenerateSHA256HMAC:
  "DecodeString (GenerateSHA256HMAC secret v) = Some (generateSHA256HMAC secret v)"
  by (simp add: GenerateSHA256HMAC_def DecodeString_EncodeToString)

subsection \<open>Headers\<close>

lemmas canon_defs = CanonicalMIMEHeaderKey_def validHeaderFieldByte_def isLowerAZ_def
  isUpperAZ_def isDigit09_def canonByte_def char_of_def bit_0

lemma canon_signature: "CanonicalMIMEHeaderKey ''x-signature'' = ''X-Signature''"
  by (simp add: canon_defs)

lemma canon_timestamp: "CanonicalMIMEHeaderKey ''x-timestamp'' = ''X-Timestamp''"
  by (simp add: canon_defs)

lemma canon_api_key_id: "CanonicalMIMEHeaderKey ''x-api-key-id'' = ''X-Api-Key-Id''"
  by (simp add: canon_defs)

lemma Header_index_update:
  "Header_index (Mapping.update k vs h) k' = (if k = k' then vs else Header_index h k')"
  by (simp add: Header_index_def lookup_update')

lemma Header_Values_Add:
  "Header_Values (Header_Add h k v) k' =
     (if CanonicalMIMEHeaderKey k = CanonicalMIMEHeaderKey k'
      then Header_Values h k' @ [v] else Header_Values h k')"
  by (simp add: Header_Values_def Header_Add_def Header_index_update)

lemma Header_index_Add:
  "Header_index (Header_Add h k v) k' =
     (if CanonicalMIMEHeaderKey k = k' then Header_index h k' @ [v] else Header_index h k')"
  by (auto simp add: Header_Add_def Header_index_update)

lemma Header_Get_Values:
  "Header_Get h k = (case Header_Values h k of [] \<Rightarrow> [] | v # vs \<Rightarrow> v)"
  by (simp add: Header_Get_def Header_Values_def)

lemma not_is_empty_Header_Add: "\<not> Mapping.is_empty (Header_Add h k v)"
  by (simp add: Header_Add_def)

lemma Header_AddAuthHeaders:
  "Header (AddAuthHeaders L g now r) =
     Header_Add
       (Header_Add
          (Header_Add (Header r) ''x-signature''
             (GenerateSHA256HMAC (g_secret g) [Method r, Path (URL r), Format_RFC3339 L now]))
          ''x-api-key-id'' (g_id g))
       ''x-timestamp'' (Format_RFC3339 L now)"
  by (simp add: AddAuthHeaders_def Let_def)

lemma Values_signature_AddAuthHeaders:
  "Header_Values (Header (AddAuthHeaders L g now r)) ''x-signature'' =
     Header_Values (Header r) ''x-signature''
       @ [GenerateSHA256HMAC (g_secret g) [Method r, Path (URL r), Format_RFC3339 L now]]"
  by (simp add: Header_AddAuthHeaders Header_Values_Add canon_signature canon_timestamp
        canon_api_key_id)

lemma Values_timestamp_AddAuthHeaders:
  "Header_Values (Header (AddAuthHeaders L g now r)) ''x-timestamp'' =
     Header_Values (Header r) ''x-timestamp'' @ [Format_RFC3339 L now]"
  by (simp add: Header_AddAuthHeaders Header_Values_Add canon_signature canon_timestamp
        canon_api_key_id)

lemma Values_api_key_id_AddAuthHeaders:
  "Header_Values (Header (AddAuthHeaders L g now r)) ''x-api-key-id'' =
     Header_Values (Header r) ''x-api-key-id'' @ [g_id g]"
  by (simp add: Header_AddAuthHeaders Header_Values_Add canon_signature canon_timestamp
        canon_api_key_id)

lemma not_is_empty_AddAuthHeaders: "\<not> Mapping.is_empty (Header (AddAuthHeaders L g now r))"
  by (simp add: Header_AddAuthHeaders not_is_empty_Header_Add)

lemma Method_AddAuthHeaders: "Method (AddAuthHeaders L g now r) = Method r"
  by (simp add: AddAuthHeaders_def Let_def)

lemma URL_AddAuthHeaders: "URL (AddAuthHeaders L g now r) = URL r"
  by (simp add: AddAuthHeaders_def Let_def)

section \<open>The checks of \<open>Validate\<close>, one by one\<close>

lemma generateSHA256HMAC_three:
  "generateSHA256HMAC secret [m, p, t] = hmac_sha256 (bytes_of secret) (bytes_of (m @ p @ t))"
  by (simp add: generateSHA256HMAC_def)

lemma Validate_no_headers:
  "Mapping.is_empty (Header r) \<Longrightarrow>
     Validate L v clock r secret = (False, Some MissingRequiredHeaders)"
  by (simp add: Validate_def)

lemma Validate_no_signature:
  "\<not> Mapping.is_empty (Header r) \<Longrightarrow> sigStr_of r = [] \<Longrightarrow>
     Validate L v clock r secret = (False, Some MissingSignatureHeader)"
  by (simp add: Validate_def)

lemma Validate_bad_signature:
  "\<not> Mapping.is_empty (Header r) \<Longrightarrow> sigStr_of r \<noteq> [] \<Longrightarrow>
   DecodeString (sigStr_of r) = None \<Longrightarrow>
     Validate L v clock r secret = (False, Some InvalidSignatureFormat)"
  by (simp add: Validate_def)

lemma Validate_no_timestamp:
  "\<not> Mapping.is_empty (Header r) \<Longrightarrow> sigStr_of r \<noteq> [] \<Longrightarrow>
   DecodeString (sigStr_of r) = Some sig \<Longrightarrow> timeStr_of r = [] \<Longrightarrow>
     Validate L v clock r secret = (False, Some MissingTimestampHeader)"
  by (simp add: Validate_def)

lemma Validate_bad_timestamp:
  "\<not> Mapping.is_empty (Header r) \<Longrightarrow> sigStr_of r \<noteq> [] \<Longrightarrow>
   DecodeString (sigStr_of r) = Some sig \<Longrightarrow> timeStr_of r \<noteq> [] \<Longrightarrow>
   Parse_RFC3339 L (timeStr_of r) = Inl e \<Longrightarrow>
     Validate L v clock r secret = (False, Some (ErrorParsingTimestamp e))"
  by (simp add: Validate_def)

lemma Validate_expired:
  "\<not> Mapping.is_empty (Header r) \<Longrightarrow> sigStr_of r \<noteq> [] \<Longrightarrow>
   DecodeString (sigStr_of r) = Some sig \<Longrightarrow> timeStr_of r \<noteq> [] \<Longrightarrow>
   Parse_RFC3339 L (timeStr_of r) = Inr ts \<Longrightarrow>
   sint (Unix L ts + validity v) \<le> sint (Unix L clock) \<Longrightarrow>
     Validate L v clock r secret = (False, Some ExpiredAccess)"
  by (simp add: Validate_def)

lemma Validate_mismatch:
  "\<not> Mapping.is_empty (Header r) \<Longrightarrow> sigStr_of r \<noteq> [] \<Longrightarrow>
   DecodeString (sigStr_of r) = Some sig \<Longrightarrow> timeStr_of r \<noteq> [] \<Longrightarrow>
   Parse_RFC3339 L (timeStr_of r) = Inr ts \<Longrightarrow>
   sint (Unix L clock) < sint (Unix L ts + validity v) \<Longrightarrow>
   sig \<noteq> hmac_sha256 (bytes_of secret) (bytes_of (Method r @ Path (URL r) @ timeStr_of r)) \<Longrightarrow>
     Validate L v clock r secret = (False, Some InvalidHmacSignature)"
  by (simp add: Validate_def hmac_Equal_iff generateSHA256HMAC_three)

lemma Validate_accepted:
  "\<not> Mapping.is_empty (Header r) \<Longrightarrow> sigStr_of r \<noteq> [] \<Longrightarrow>
   DecodeString (sigStr_of r) = Some sig \<Longrightarrow> timeStr_of r \<noteq> [] \<Longrightarrow>
   Parse_RFC3339 L (timeStr_of r) = Inr ts \<Longrightarrow>
   sint (Unix L clock) < sint (Unix L ts + validity v) \<Longrightarrow>
   sig = hmac_sha256 (bytes_of secret) (bytes_of (Method r @ Path (URL r) @ timeStr_of r)) \<Longrightarrow>
     Validate L v clock r secret = (True, None)"
  by (simp add: Validate_def hmac_Equal_iff generateSHA256HMAC_three)

lemma Validate_true_only_if:
  assumes "Validate L v clock r secret = (True, None)"
  shows "\<not> Mapping.is_empty (Header r) \<and> sigStr_of r \<noteq> [] \<and> timeStr_of r \<noteq> [] \<and>
     (\<exists>sig ts. DecodeString (sigStr_of r) = Some sig \<and>
        Parse_RFC3339 L (timeStr_of r) = Inr ts \<and>
        sint (Unix L clock) < sint (Unix L ts + validity v) \<and>
        sig = hmac_sha256 (bytes_of secret) (bytes_of (Method r @ Path (URL r) @ timeStr_of r)))"
  using assms
  by (simp add: Validate_def Let_def hmac_Equal_iff generateSHA256HMAC_three
        split: if_splits option.splits sum.splits)

lemma Validate_false_or_true:
  "Validate L v clock r secret = (True, None) \<or> (\<exists>e. Validate L v clock r secret = (False, Some e))"
  by (simp add: Validate_def Let_def split: option.splits sum.splits)

section \<open>Signing, as the validator reads it\<close>

lemma sigStr_AddAuthHeaders_fresh:
  "Header_Values (Header r) ''x-signature'' = [] \<Longrightarrow>
     sigStr_of (AddAuthHeaders L g now r) =
       GenerateSHA256HMAC (g_secret g) [Method r, Path (URL r), Format_RFC3339 L now]"
  by (simp add: Header_Get_Values Values_signature_AddAuthHeaders)

lemma timeStr_AddAuthHeaders_fresh:
  "Header_Values (Header r) ''x-timestamp'' = [] \<Longrightarrow>
     timeStr_of (AddAuthHeaders L g now r) = Format_RFC3339 L now"
  by (simp add: Header_Get_Values Values_timestamp_AddAuthHeaders)

lemma api_key_id_AddAuthHeaders_fresh:
  "Header_Values (Header r) ''x-api-key-id'' = [] \<Longrightarrow>
     Header_Get (Header (AddAuthHeaders L g now r)) ''x-api-key-id'' = g_id g"
  by (simp add: Header_Get_Values Values_api_key_id_AddAuthHeaders)

lemma sigStr_AddAuthHeaders_stale:
  "Header_Values (Header r) ''x-signature'' \<noteq> [] \<Longrightarrow>
     sigStr_of (AddAuthHeaders L g now r) = sigStr_of r"
  by (cases "Header_Values (Header r) ''x-signature''")
     (simp_all add: Header_Get_Values Values_signature_AddAuthHeaders)

lemma timeStr_AddAuthHeaders_stale:
  "Header_Values (Header r) ''x-timestamp'' \<noteq> [] \<Longrightarrow>
     timeStr_of (AddAuthHeaders L g now r) = timeStr_of r"
  by (cases "Header_Values (Header r) ''x-timestamp''")
     (simp_all add: Header_Get_Values Values_timestamp_AddAuthHeaders)

lemma Header_Values_not_empty:
  "Header_Values h k \<noteq> [] \<Longrightarrow> \<not> Mapping.is_empty h"
proof
  assume v: "Header_Values h k \<noteq> []" and e: "Mapping.is_empty h"
  from e have "Mapping.keys h = {}" by (simp add: Mapping.is_empty_def)
  then have "Mapping.lookup h (CanonicalMIMEHeaderKey k) = None"
    by (simp add: keys_dom_lookup)
  with v show False by (simp add: Header_Values_def Header_index_def)
qed

text \<open>\<open>Validate\<close> reads the method, the path, the two headers and whether the header
  map is empty, and nothing else.\<close>

lemma Validate_cong:
  assumes "Mapping.is_empty (Header r') = Mapping.is_empty (Header r)"
      and "sigStr_of r' = sigStr_of r"
      and "timeStr_of r' = timeStr_of r"
      and "Method r' = Method r"
      and "Path (URL r') = Path (URL r)"
  shows "Validate L v clock r' secret = Validate L v clock r secret"
  unfolding Validate_def Let_def by (simp only: assms)

subsection \<open>The example data, evaluated\<close>

lemma replicate_numeral: "replicate (numeral k) x = x # replicate (pred_numeral k) x"
  by (simp add: numeral_eq_Suc)

lemmas time_eval_defs = go_time_def Time_Format_RFC3339_def format_local_def date_text_def
  clock_text_def civil_from_days_def civil_of_doe_def civil_of_yoe_def civil_of_doy_def
  civil_of_mp_def appendInt_def decimal.simps replicate_numeral zone_text_def zone_digits_def
  Time_Parse_RFC3339_def parse_date_def parse_clock_def getyear_def digitVal_def
  commaOrPeriod_def zone_sign_def parse_offset_def civil_seconds_def
  isDigit09_def days_from_civil_def days_of_year_def days_of_era_def daysIn_def isLeap_def
  Time_Unix_def char_of_def bit_0 later_def ex_clock_def

lemma Format_ex_clock: "Format_RFC3339 go_time ex_clock = ''2025-06-01T12:34:56Z''"
  by (simp add: time_eval_defs)

lemma Parse_ex_clock: "Parse_RFC3339 go_time ''2025-06-01T12:34:56Z'' = Inr ex_clock"
  by (simp add: time_eval_defs)

lemma Unix_ex_clock: "Unix go_time ex_clock = 1748781296"
  by (simp add: go_time_def Time_Unix_def ex_clock_def)

lemma Unix_later: "Unix go_time (later n ex_clock) = word_of_int (1748781296 + n)"
  by (simp add: go_time_def Time_Unix_def ex_clock_def later_def)

lemma Values_ex_request: "Header_Values (Header ex_request) k = []"
  by (simp add: ex_request_def Header_Values_def Header_index_def)

lemma Method_ex_request: "Method ex_request = ''GET''"
  by (simp add: ex_request_def)

lemma Path_ex_request: "Path (URL ex_request) = ''/resource''"
  by (simp add: ex_request_def)

lemma Values_signature_ex_signed:
  "Header_Values (Header ex_signed) ''x-signature'' = [EncodeToString ex_mac]"
  by (simp add: ex_signed_def Values_signature_AddAuthHeaders Values_ex_request
        Method_ex_request Path_ex_request Format_ex_clock ex_generator_def NewGenerator_def
        ex_mac_def GenerateSHA256HMAC_def)

lemma Values_timestamp_ex_signed:
  "Header_Values (Header ex_signed) ''x-timestamp'' = [''2025-06-01T12:34:56Z'']"
  by (simp add: ex_signed_def Values_timestamp_AddAuthHeaders Values_ex_request
        Format_ex_clock)

lemma sigStr_ex_signed: "sigStr_of ex_signed = EncodeToString ex_mac"
  by (simp add: Header_Get_Values Values_signature_ex_signed)

lemma timeStr_ex_signed: "timeStr_of ex_signed = ''2025-06-01T12:34:56Z''"
  by (simp add: Header_Get_Values Values_timestamp_ex_signed)

lemma not_is_empty_ex_signed: "\<not> Mapping.is_empty (Header ex_signed)"
  by (simp add: ex_signed_def not_is_empty_AddAuthHeaders)

lemma Method_ex_signed: "Method ex_signed = ''GET''"
  by (simp add: ex_signed_def Method_AddAuthHeaders Method_ex_request)

lemma Path_ex_signed: "Path (URL ex_signed) = ''/resource''"
  by (simp add: ex_signed_def URL_AddAuthHeaders Path_ex_request)

lemma length_ex_mac: "length ex_mac = 32"
  by (simp add: ex_mac_def generateSHA256HMAC_def length_hmac_sha256)

lemma sigStr_ex_signed_nonempty: "sigStr_of ex_signed \<noteq> []"
  using length_EncodeToString [of ex_mac] by (auto simp: sigStr_ex_signed length_ex_mac)

lemma Decode_ex_signed: "DecodeString (sigStr_of ex_signed) = Some ex_mac"
  by (simp add: sigStr_ex_signed DecodeString_EncodeToString)

lemma ex_mac_eq:
  "ex_mac = hmac_sha256 (bytes_of ''supersecret'')
     (bytes_of (Method ex_signed @ Path (URL ex_signed) @ timeStr_of ex_signed))"
  by (simp only: ex_mac_def generateSHA256HMAC_three Method_ex_signed Path_ex_signed
        timeStr_ex_signed)

lemma Parse_ex_signed: "Parse_RFC3339 go_time (timeStr_of ex_signed) = Inr ex_clock"
  by (simp only: timeStr_ex_signed Parse_ex_clock)

text \<open>
  The instance at the edges of what \<open>time.Parse\<close> accepts: an hour of one digit, a
  comma before the fraction, a zone of 24 hours or of 60 minutes are read; a text
  that goes on after the zone, a day the month does not have, the hour 24, a space for
  the \<open>T\<close> and a number of seconds are refused. \<open>Format\<close> writes an offset of less
  than a minute west as \<open>+00:00\<close> and a year above 9999 with five digits.
\<close>

lemma Parse_accepts:
  "Time_Parse_RFC3339 ''2025-06-01T1:02:03Z'' = Inr \<lparr>unixSec = 1748739723, zoneOffset = 0\<rparr>"
  "Time_Parse_RFC3339 ''2025-06-01T12:34:56,5Z'' = Inr \<lparr>unixSec = 1748781296, zoneOffset = 0\<rparr>"
  "Time_Parse_RFC3339 ''2025-06-01T12:34:56.123456789+24:00''
     = Inr \<lparr>unixSec = 1748694896, zoneOffset = 86400\<rparr>"
  "Time_Parse_RFC3339 ''2025-06-01T12:34:56-00:60''
     = Inr \<lparr>unixSec = 1748784896, zoneOffset = - 3600\<rparr>"
  "Time_Parse_RFC3339 ''2025-06-01T12:34:56+05:30''
     = Inr \<lparr>unixSec = 1748761496, zoneOffset = 19800\<rparr>"
  by (simp_all add: time_eval_defs)

lemma Parse_refuses:
  "Time_Parse_RFC3339 ''2025-06-01T12:34:56Zx'' = Inl ()"
  "Time_Parse_RFC3339 ''2025-02-29T12:34:56Z'' = Inl ()"
  "Time_Parse_RFC3339 ''2025-06-01T24:00:00Z'' = Inl ()"
  "Time_Parse_RFC3339 ''2025-06-01 12:34:56Z'' = Inl ()"
  "Time_Parse_RFC3339 ''1748410688'' = Inl ()"
  by (simp_all add: time_eval_defs)

lemma Format_zones:
  "Time_Format_RFC3339 \<lparr>unixSec = 1748781296, zoneOffset = - 45\<rparr>
     = ''2025-06-01T12:34:11+00:00''"
  "Time_Format_RFC3339 \<lparr>unixSec = 1748781296, zoneOffset = - 19800\<rparr>
     = ''2025-06-01T07:04:56-05:30''"
  "Time_Format_RFC3339 \<lparr>unixSec = 1748781296, zoneOffset = 19800\<rparr>
     = ''2025-06-01T18:04:56+05:30''"
  "Time_Format_RFC3339 \<lparr>unixSec = 253402300800, zoneOffset = 0\<rparr>
     = ''10000-01-01T00:00:00Z''"
  by (simp_all add: time_eval_defs)

subsection \<open>The hand-made requests, evaluated\<close>

lemma Values_empty: "Header_Values Mapping.empty k = []"
  by (simp add: Header_Values_def Header_index_def)

lemma Values_Add_empty:
  "Header_Values (Header_Add Mapping.empty k v) k' =
     (if CanonicalMIMEHeaderKey k = CanonicalMIMEHeaderKey k' then [v] else [])"
  by (simp add: Header_Values_Add Values_empty)

lemma canon_Accept: "CanonicalMIMEHeaderKey ''Accept'' = ''Accept''"
  by (simp add: canon_defs)

lemma Decode_deadbeef: "DecodeString ''deadbeef'' = Some [0xde, 0xad, 0xbe, 0xef]"
  by (simp add: fromHexChar_def)

lemma Decode_zz: "DecodeString ''zz'' = None"
  by (simp add: fromHexChar_def)

lemma Validate_ex_not_hex:
  "Validate go_time ex_validator ex_clock ex_not_hex ''supersecret''
     = (False, Some InvalidSignatureFormat)"
proof -
  have a: "\<not> Mapping.is_empty (Header ex_not_hex)"
    by (simp add: ex_not_hex_def not_is_empty_Header_Add)
  have s: "sigStr_of ex_not_hex = ''zz''"
    by (simp add: ex_not_hex_def Header_Get_Values Values_Add_empty)
  have b: "sigStr_of ex_not_hex \<noteq> []" by (simp add: s)
  have c: "DecodeString (sigStr_of ex_not_hex) = None" by (simp only: s Decode_zz)
  show ?thesis by (rule Validate_bad_signature [OF a b c])
qed

lemma Values_signature_ex_stale: "Header_Values (Header ex_stale) ''x-signature'' = [''deadbeef'']"
  by (simp add: ex_stale_def Header_Values_Add Values_empty canon_signature canon_timestamp)

lemma Values_timestamp_ex_stale:
  "Header_Values (Header ex_stale) ''x-timestamp'' = [''2025-06-01T12:00:00Z'']"
  by (simp add: ex_stale_def Header_Values_Add Values_empty canon_signature canon_timestamp)

subsection \<open>The window in \<open>int64\<close>\<close>

lemma sint_sum_no_overflow:
  fixes a b :: int64
  assumes "- (2 ^ 63) \<le> sint a + sint b" and "sint a + sint b < 2 ^ 63"
  shows "sint (a + b) = sint a + sint b"
proof -
  have "sint (a + b) = signed_take_bit 63 (sint a + sint b)"
    by (simp add: sint_word_ariths)
  also have "\<dots> = sint a + sint b"
    using assms by (intro signed_take_bit_int_eq_self) simp_all
  finally show ?thesis .
qed

lemma window_open_at_signing:
  fixes t w :: int64
  assumes "1 \<le> sint w" and "sint t + sint w < 2 ^ 63"
  shows "sint t < sint (t + w)"
proof -
  have "- (2 ^ 63) \<le> sint t" using sint_ge [of t] by simp
  with assms have "sint (t + w) = sint t + sint w"
    by (intro sint_sum_no_overflow) simp_all
  with assms show ?thesis by simp
qed

lemma future_timestamp_within_int64:
  fixes T w now :: int64
  assumes "sint now < sint T" and "0 \<le> sint w" and "sint T + sint w < 2 ^ 63"
  shows "\<not> sint (T + w) \<le> sint now"
proof -
  have "- (2 ^ 63) \<le> sint T" using sint_ge [of T] by simp
  with assms have "sint (T + w) = sint T + sint w"
    by (intro sint_sum_no_overflow) simp_all
  with assms show ?thesis by simp
qed

lemma Format_later_4: "Format_RFC3339 go_time (later 4 ex_clock) = ''2025-06-01T12:35:00Z''"
  by (simp add: time_eval_defs)

lemma Parse_later_4: "Parse_RFC3339 go_time ''2025-06-01T12:35:00Z'' = Inr (later 4 ex_clock)"
  by (simp add: time_eval_defs)

lemma bytes_of_append: "bytes_of (a @ b) = bytes_of a @ bytes_of b"
  by (simp add: bytes_of_def)

subsection \<open>The bundled test of signing and validating\<close>

lemma Header_Values_Set:
  "Header_Values (Header_Set h k v) k' =
     (if CanonicalMIMEHeaderKey k = CanonicalMIMEHeaderKey k' then [v] else Header_Values h k')"
  by (simp add: Header_Values_def Header_Set_def Header_index_update)

lemma not_is_empty_Header_Set: "\<not> Mapping.is_empty (Header_Set h k v)"
  by (simp add: Header_Set_def)

lemma Format_earlier_120:
  "Format_RFC3339 go_time (later (- 120) ex_clock) = ''2025-06-01T12:32:56Z''"
  by (simp add: time_eval_defs)

lemma Parse_earlier_120:
  "Parse_RFC3339 go_time ''2025-06-01T12:32:56Z'' = Inr (later (- 120) ex_clock)"
  by (simp add: time_eval_defs)

lemma Decode_deadbeef_not_mac: "Some [0xde, 0xad, 0xbe, 0xef] \<noteq> Some (hmac_sha256 k m)"
proof
  assume "Some [0xde, 0xad, 0xbe, 0xef] = Some (hmac_sha256 k m)"
  then have "length (hmac_sha256 k m) = length [0xde, 0xad, 0xbe, 0xef :: byte]" by simp
  then show False by (simp add: length_hmac_sha256)
qed

text \<open>
  The bundled test \<open>TestGeneratorAndValidator\<close> runs as it expects: the signed request
  is valid, the request with the overwritten signature is not, and the request signed
  again with a timestamp two minutes old fails with "expired access".
\<close>

lemma TestGeneratorAndValidator:
  "Validate go_time ex_validator ex_clock ex_signed ''supersecret'' = (True, None) \<and>
   Validate go_time ex_validator ex_clock test_tampered ''supersecret''
     = (False, Some InvalidHmacSignature) \<and>
   Validate go_time ex_validator ex_clock test_expired ''supersecret''
     = (False, Some ExpiredAccess)"
proof -
  have t4: "timeStr_of ex_signed \<noteq> []" by (simp add: timeStr_ex_signed)
  have w: "sint (Unix go_time ex_clock) < sint (Unix go_time ex_clock + validity ex_validator)"
    by (simp add: Unix_ex_clock ex_validator_def NewValidator_def)
  have a: "Validate go_time ex_validator ex_clock ex_signed ''supersecret'' = (True, None)"
    by (rule Validate_accepted [OF not_is_empty_ex_signed sigStr_ex_signed_nonempty
          Decode_ex_signed t4 Parse_ex_signed w ex_mac_eq])
  have b1: "\<not> Mapping.is_empty (Header test_tampered)"
    by (simp add: test_tampered_def not_is_empty_Header_Set)
  have bs: "sigStr_of test_tampered = ''deadbeef''"
    by (simp add: test_tampered_def Header_Get_Values Header_Values_Set)
  have bt: "timeStr_of test_tampered = ''2025-06-01T12:34:56Z''"
    by (simp add: test_tampered_def Header_Get_Values Header_Values_Set canon_signature
          canon_timestamp Values_timestamp_ex_signed)
  have b2: "sigStr_of test_tampered \<noteq> []" by (simp add: bs)
  have b3: "DecodeString (sigStr_of test_tampered) = Some [0xde, 0xad, 0xbe, 0xef]"
    by (simp only: bs Decode_deadbeef)
  have b4: "timeStr_of test_tampered \<noteq> []" by (simp add: bt)
  have b5: "Parse_RFC3339 go_time (timeStr_of test_tampered) = Inr ex_clock"
    by (simp only: bt Parse_ex_clock)
  have b7: "[0xde, 0xad, 0xbe, 0xef] \<noteq> hmac_sha256 (bytes_of ''supersecret'')
      (bytes_of (Method test_tampered @ Path (URL test_tampered) @ timeStr_of test_tampered))"
    using Decode_deadbeef_not_mac by simp
  have b: "Validate go_time ex_validator ex_clock test_tampered ''supersecret''
     = (False, Some InvalidHmacSignature)"
    by (rule Validate_mismatch [OF b1 b2 b3 b4 b5 w b7])
  have vs: "Header_Values (Header test_tampered) ''x-signature'' = [''deadbeef'']"
    by (simp add: test_tampered_def Header_Values_Set)
  have c1: "\<not> Mapping.is_empty (Header test_expired)"
    by (simp add: test_expired_def not_is_empty_Header_Set)
  have cs: "sigStr_of test_expired = ''deadbeef''"
    by (simp add: test_expired_def test_resigned_def Header_Get_Values Header_Values_Set
          canon_signature canon_timestamp Values_signature_AddAuthHeaders vs)
  have ct: "timeStr_of test_expired = ''2025-06-01T12:32:56Z''"
    by (simp add: test_expired_def Header_Get_Values Header_Values_Set Format_earlier_120)
  have c2: "sigStr_of test_expired \<noteq> []" by (simp add: cs)
  have c3: "DecodeString (sigStr_of test_expired) = Some [0xde, 0xad, 0xbe, 0xef]"
    by (simp only: cs Decode_deadbeef)
  have c4: "timeStr_of test_expired \<noteq> []" by (simp add: ct)
  have c5: "Parse_RFC3339 go_time (timeStr_of test_expired) = Inr (later (- 120) ex_clock)"
    by (simp only: ct Parse_earlier_120)
  have c6: "sint (Unix go_time (later (- 120) ex_clock) + validity ex_validator)
      \<le> sint (Unix go_time ex_clock)"
    by (simp add: Unix_later Unix_ex_clock ex_validator_def NewValidator_def)
  have c: "Validate go_time ex_validator ex_clock test_expired ''supersecret''
     = (False, Some ExpiredAccess)"
    by (rule Validate_expired [OF c1 c2 c3 c4 c5 c6])
  from a b c show ?thesis by simp
qed

section \<open>What holds of the window as the source computes it\<close>

text \<open>
  The three results below are stated with the window test of the source, the signed
  comparison of the clock with the \<open>int64\<close> sum of the parsed second and the window.
  By \<open>sint_sum_no_overflow\<close> that sum is the sum of the integers whenever the latter
  fits in 64 bits.
\<close>

text \<open>A freshly signed request is valid while the window of the source is open.\<close>

lemma signed_request_validates:
  assumes fresh_sig: "Header_Values (Header r) ''x-signature'' = []"
      and fresh_ts: "Header_Values (Header r) ''x-timestamp'' = []"
      and fmt: "Format_RFC3339 L now \<noteq> []"
      and parse: "Parse_RFC3339 L (Format_RFC3339 L now) = Inr ts"
      and same: "Unix L ts = Unix L now"
      and window: "sint (Unix L clock) < sint (Unix L now + validity v)"
  shows "Validate L v clock (AddAuthHeaders L (NewGenerator i s) now r) s = (True, None)"
proof -
  let ?r = "AddAuthHeaders L (NewGenerator i s) now r"
  let ?t = "Format_RFC3339 L now"
  have sg: "sigStr_of ?r = GenerateSHA256HMAC s [Method r, Path (URL r), ?t]"
    using sigStr_AddAuthHeaders_fresh [OF fresh_sig, of L "NewGenerator i s" now]
    by (simp add: NewGenerator_def)
  have tm: "timeStr_of ?r = ?t"
    by (rule timeStr_AddAuthHeaders_fresh [OF fresh_ts])
  have 1: "\<not> Mapping.is_empty (Header ?r)"
    by (rule not_is_empty_AddAuthHeaders)
  have 2: "sigStr_of ?r \<noteq> []"
    by (simp only: sg GenerateSHA256HMAC_nonempty not_False_eq_True)
  have 3: "DecodeString (sigStr_of ?r) = Some (generateSHA256HMAC s [Method r, Path (URL r), ?t])"
    by (simp only: sg DecodeString_GenerateSHA256HMAC)
  have 4: "timeStr_of ?r \<noteq> []"
    by (simp only: tm fmt not_False_eq_True)
  have 5: "Parse_RFC3339 L (timeStr_of ?r) = Inr ts"
    by (simp only: tm parse)
  have 6: "sint (Unix L clock) < sint (Unix L ts + validity v)"
    by (simp only: same window)
  have 7: "generateSHA256HMAC s [Method r, Path (URL r), ?t] =
      hmac_sha256 (bytes_of s) (bytes_of (Method ?r @ Path (URL ?r) @ timeStr_of ?r))"
    by (simp only: tm Method_AddAuthHeaders URL_AddAuthHeaders generateSHA256HMAC_three)
  show ?thesis
    by (rule Validate_accepted [OF 1 2 3 4 5 6 7])
qed

lemma signed_request_validates_example:
  "Header_Values (Header ex_request) ''x-signature'' = [] \<and>
   Header_Values (Header ex_request) ''x-timestamp'' = [] \<and>
   Format_RFC3339 go_time ex_clock \<noteq> [] \<and>
   Parse_RFC3339 go_time (Format_RFC3339 go_time ex_clock) = Inr ex_clock \<and>
   Unix go_time ex_clock = Unix go_time ex_clock \<and>
   sint (Unix go_time (later 59 ex_clock)) < sint (Unix go_time ex_clock + validity (NewValidator 60)) \<and>
   Validate go_time (NewValidator 60) (later 59 ex_clock)
     (AddAuthHeaders go_time (NewGenerator ''test-key'' ''supersecret'') ex_clock ex_request)
     ''supersecret'' = (True, None)"
proof -
  have a: "Header_Values (Header ex_request) ''x-signature'' = []"
    by (rule Values_ex_request)
  have b: "Header_Values (Header ex_request) ''x-timestamp'' = []"
    by (rule Values_ex_request)
  have c: "Format_RFC3339 go_time ex_clock \<noteq> []"
    by (simp add: Format_ex_clock)
  have d: "Parse_RFC3339 go_time (Format_RFC3339 go_time ex_clock) = Inr ex_clock"
    by (simp add: Format_ex_clock Parse_ex_clock)
  have e: "Unix go_time ex_clock = Unix go_time ex_clock" by (rule refl)
  have f: "sint (Unix go_time (later 59 ex_clock))
             < sint (Unix go_time ex_clock + validity (NewValidator 60))"
    by (simp add: Unix_later Unix_ex_clock NewValidator_def)
  from signed_request_validates [OF a b c d e f, of "''test-key''" "''supersecret''"] a b c d e f
  show ?thesis by blast
qed

text \<open>\<open>Validate\<close> accepts exactly when every check of the source passes, and otherwise
  returns the error of the first check that fails.\<close>

lemma Validate_outcomes:
  "(Validate L v clock r secret = (True, None) \<longleftrightarrow>
      \<not> Mapping.is_empty (Header r) \<and> sigStr_of r \<noteq> [] \<and> timeStr_of r \<noteq> [] \<and>
      (\<exists>sig ts. DecodeString (sigStr_of r) = Some sig \<and>
         Parse_RFC3339 L (timeStr_of r) = Inr ts \<and>
         sint (Unix L clock) < sint (Unix L ts + validity v) \<and>
         sig = hmac_sha256 (bytes_of secret)
                 (bytes_of (Method r @ Path (URL r) @ timeStr_of r))))
   \<and> (Validate L v clock r secret = (True, None) \<or>
        (\<exists>e. Validate L v clock r secret = (False, Some e)))
   \<and> (Mapping.is_empty (Header r) \<longrightarrow>
        Validate L v clock r secret = (False, Some MissingRequiredHeaders))
   \<and> (\<not> Mapping.is_empty (Header r) \<and> sigStr_of r = [] \<longrightarrow>
        Validate L v clock r secret = (False, Some MissingSignatureHeader))
   \<and> (\<not> Mapping.is_empty (Header r) \<and> sigStr_of r \<noteq> [] \<and>
        DecodeString (sigStr_of r) = None \<longrightarrow>
        Validate L v clock r secret = (False, Some InvalidSignatureFormat))
   \<and> (\<not> Mapping.is_empty (Header r) \<and> sigStr_of r \<noteq> [] \<and>
        DecodeString (sigStr_of r) = Some sig \<and> timeStr_of r = [] \<longrightarrow>
        Validate L v clock r secret = (False, Some MissingTimestampHeader))
   \<and> (\<not> Mapping.is_empty (Header r) \<and> sigStr_of r \<noteq> [] \<and>
        DecodeString (sigStr_of r) = Some sig \<and> timeStr_of r \<noteq> [] \<and>
        Parse_RFC3339 L (timeStr_of r) = Inl e \<longrightarrow>
        Validate L v clock r secret = (False, Some (ErrorParsingTimestamp e)))
   \<and> (\<not> Mapping.is_empty (Header r) \<and> sigStr_of r \<noteq> [] \<and>
        DecodeString (sigStr_of r) = Some sig \<and> timeStr_of r \<noteq> [] \<and>
        Parse_RFC3339 L (timeStr_of r) = Inr ts \<and>
        sint (Unix L ts + validity v) \<le> sint (Unix L clock) \<longrightarrow>
        Validate L v clock r secret = (False, Some ExpiredAccess))
   \<and> (\<not> Mapping.is_empty (Header r) \<and> sigStr_of r \<noteq> [] \<and>
        DecodeString (sigStr_of r) = Some sig \<and> timeStr_of r \<noteq> [] \<and>
        Parse_RFC3339 L (timeStr_of r) = Inr ts \<and>
        sint (Unix L clock) < sint (Unix L ts + validity v) \<and>
        sig \<noteq> hmac_sha256 (bytes_of secret)
                 (bytes_of (Method r @ Path (URL r) @ timeStr_of r)) \<longrightarrow>
        Validate L v clock r secret = (False, Some InvalidHmacSignature))"
proof -
  have a: "Validate L v clock r secret = (True, None) \<longleftrightarrow>
      \<not> Mapping.is_empty (Header r) \<and> sigStr_of r \<noteq> [] \<and> timeStr_of r \<noteq> [] \<and>
      (\<exists>sig ts. DecodeString (sigStr_of r) = Some sig \<and>
         Parse_RFC3339 L (timeStr_of r) = Inr ts \<and>
         sint (Unix L clock) < sint (Unix L ts + validity v) \<and>
         sig = hmac_sha256 (bytes_of secret)
                 (bytes_of (Method r @ Path (URL r) @ timeStr_of r)))"
    (is "?lhs \<longleftrightarrow> ?rhs")
  proof
    assume ?lhs
    then show ?rhs by (rule Validate_true_only_if)
  next
    assume ?rhs
    then obtain sig ts where "\<not> Mapping.is_empty (Header r)" "sigStr_of r \<noteq> []"
      "DecodeString (sigStr_of r) = Some sig" "timeStr_of r \<noteq> []"
      "Parse_RFC3339 L (timeStr_of r) = Inr ts"
      "sint (Unix L clock) < sint (Unix L ts + validity v)"
      "sig = hmac_sha256 (bytes_of secret) (bytes_of (Method r @ Path (URL r) @ timeStr_of r))"
      by blast
    then show ?lhs by (rule Validate_accepted)
  qed
  have b: "Validate L v clock r secret = (True, None) \<or>
        (\<exists>e. Validate L v clock r secret = (False, Some e))"
    by (rule Validate_false_or_true)
  have c: "Mapping.is_empty (Header r) \<longrightarrow>
        Validate L v clock r secret = (False, Some MissingRequiredHeaders)"
    by (simp add: Validate_no_headers)
  have d: "\<not> Mapping.is_empty (Header r) \<and> sigStr_of r = [] \<longrightarrow>
        Validate L v clock r secret = (False, Some MissingSignatureHeader)"
    by (simp add: Validate_no_signature)
  have e: "\<not> Mapping.is_empty (Header r) \<and> sigStr_of r \<noteq> [] \<and>
        DecodeString (sigStr_of r) = None \<longrightarrow>
        Validate L v clock r secret = (False, Some InvalidSignatureFormat)"
    by (simp add: Validate_bad_signature)
  have f: "\<not> Mapping.is_empty (Header r) \<and> sigStr_of r \<noteq> [] \<and>
        DecodeString (sigStr_of r) = Some sig \<and> timeStr_of r = [] \<longrightarrow>
        Validate L v clock r secret = (False, Some MissingTimestampHeader)"
    using Validate_no_timestamp [of r sig L v clock secret] by blast
  have g: "\<not> Mapping.is_empty (Header r) \<and> sigStr_of r \<noteq> [] \<and>
        DecodeString (sigStr_of r) = Some sig \<and> timeStr_of r \<noteq> [] \<and>
        Parse_RFC3339 L (timeStr_of r) = Inl e \<longrightarrow>
        Validate L v clock r secret = (False, Some (ErrorParsingTimestamp e))"
    using Validate_bad_timestamp [of r sig L e v clock secret] by blast
  have h: "\<not> Mapping.is_empty (Header r) \<and> sigStr_of r \<noteq> [] \<and>
        DecodeString (sigStr_of r) = Some sig \<and> timeStr_of r \<noteq> [] \<and>
        Parse_RFC3339 L (timeStr_of r) = Inr ts \<and>
        sint (Unix L ts + validity v) \<le> sint (Unix L clock) \<longrightarrow>
        Validate L v clock r secret = (False, Some ExpiredAccess)"
    using Validate_expired [of r sig L ts v clock secret] by blast
  have i: "\<not> Mapping.is_empty (Header r) \<and> sigStr_of r \<noteq> [] \<and>
        DecodeString (sigStr_of r) = Some sig \<and> timeStr_of r \<noteq> [] \<and>
        Parse_RFC3339 L (timeStr_of r) = Inr ts \<and>
        sint (Unix L clock) < sint (Unix L ts + validity v) \<and>
        sig \<noteq> hmac_sha256 (bytes_of secret)
                 (bytes_of (Method r @ Path (URL r) @ timeStr_of r)) \<longrightarrow>
        Validate L v clock r secret = (False, Some InvalidHmacSignature)"
    using Validate_mismatch [of r sig L ts clock v secret] by blast
  show ?thesis
    by (intro conjI) (rule a, rule b, rule c, rule d, rule e, rule f, rule g, rule h, rule i)
qed

lemma Validate_outcomes_example:
  "\<not> Mapping.is_empty (Header ex_signed) \<and> sigStr_of ex_signed \<noteq> [] \<and>
   DecodeString (sigStr_of ex_signed) = Some ex_mac \<and> timeStr_of ex_signed \<noteq> [] \<and>
   Parse_RFC3339 go_time (timeStr_of ex_signed) = Inr ex_clock \<and>
   sint (Unix go_time (later 30 ex_clock)) < sint (Unix go_time ex_clock + validity ex_validator) \<and>
   sint (Unix go_time ex_clock + validity ex_validator) \<le> sint (Unix go_time (later 60 ex_clock)) \<and>
   ex_mac = hmac_sha256 (bytes_of ''supersecret'')
     (bytes_of (Method ex_signed @ Path (URL ex_signed) @ timeStr_of ex_signed)) \<and>
   Mapping.is_empty (Header ex_request) \<and>
   Validate go_time ex_validator (later 30 ex_clock) ex_signed ''supersecret'' = (True, None) \<and>
   Validate go_time ex_validator (later 60 ex_clock) ex_signed ''supersecret''
     = (False, Some ExpiredAccess) \<and>
   Validate go_time ex_validator ex_clock ex_request ''supersecret''
     = (False, Some MissingRequiredHeaders)"
proof -
  have 1: "\<not> Mapping.is_empty (Header ex_signed)" by (rule not_is_empty_ex_signed)
  have 2: "sigStr_of ex_signed \<noteq> []" by (rule sigStr_ex_signed_nonempty)
  have 3: "DecodeString (sigStr_of ex_signed) = Some ex_mac" by (rule Decode_ex_signed)
  have 4: "timeStr_of ex_signed \<noteq> []" by (simp add: timeStr_ex_signed)
  have 5: "Parse_RFC3339 go_time (timeStr_of ex_signed) = Inr ex_clock"
    by (rule Parse_ex_signed)
  have 6: "sint (Unix go_time (later 30 ex_clock))
             < sint (Unix go_time ex_clock + validity ex_validator)"
    by (simp add: Unix_later Unix_ex_clock ex_validator_def NewValidator_def)
  have 7: "sint (Unix go_time ex_clock + validity ex_validator)
             \<le> sint (Unix go_time (later 60 ex_clock))"
    by (simp add: Unix_later Unix_ex_clock ex_validator_def NewValidator_def)
  have 8: "ex_mac = hmac_sha256 (bytes_of ''supersecret'')
     (bytes_of (Method ex_signed @ Path (URL ex_signed) @ timeStr_of ex_signed))"
    by (rule ex_mac_eq)
  have 9: "Mapping.is_empty (Header ex_request)" by (simp add: ex_request_def)
  have a: "Validate go_time ex_validator (later 30 ex_clock) ex_signed ''supersecret''
      = (True, None)"
    using Validate_outcomes
      [where L = go_time and v = ex_validator and clock = "later 30 ex_clock"
         and r = ex_signed and secret = "''supersecret''", THEN conjunct1]
      1 2 3 4 5 6 8 by blast
  have b: "Validate go_time ex_validator (later 60 ex_clock) ex_signed ''supersecret''
      = (False, Some ExpiredAccess)"
    using Validate_outcomes
      [where L = go_time and v = ex_validator and clock = "later 60 ex_clock"
         and r = ex_signed and secret = "''supersecret''" and sig = ex_mac and ts = ex_clock]
      1 2 3 4 5 7 by blast
  have c: "Validate go_time ex_validator ex_clock ex_request ''supersecret''
      = (False, Some MissingRequiredHeaders)"
    using Validate_outcomes
      [where L = go_time and v = ex_validator and clock = ex_clock
         and r = ex_request and secret = "''supersecret''"]
      9 by blast
  from 1 2 3 4 5 6 7 8 9 a b c show ?thesis by blast
qed

text \<open>For a request that passes every other check, the window test alone decides.\<close>

lemma window_test:
  assumes "\<not> Mapping.is_empty (Header r)"
      and "sigStr_of r \<noteq> []"
      and "DecodeString (sigStr_of r) = Some sig"
      and "timeStr_of r \<noteq> []"
      and "Parse_RFC3339 L (timeStr_of r) = Inr ts"
      and "sig = hmac_sha256 (bytes_of secret) (bytes_of (Method r @ Path (URL r) @ timeStr_of r))"
  shows "Validate L v clock r secret =
           (if sint (Unix L clock) < sint (Unix L ts + validity v)
            then (True, None) else (False, Some ExpiredAccess))"
proof (cases "sint (Unix L clock) < sint (Unix L ts + validity v)")
  case True
  with Validate_accepted [OF assms(1-5) True assms(6)] show ?thesis by simp
next
  case False
  then have "sint (Unix L ts + validity v) \<le> sint (Unix L clock)" by simp
  from Validate_expired [OF assms(1-5) this] False show ?thesis by simp
qed

lemma window_test_example:
  "\<not> Mapping.is_empty (Header ex_signed) \<and>
   sigStr_of ex_signed \<noteq> [] \<and>
   DecodeString (sigStr_of ex_signed) = Some ex_mac \<and>
   timeStr_of ex_signed \<noteq> [] \<and>
   Parse_RFC3339 go_time (timeStr_of ex_signed) = Inr ex_clock \<and>
   ex_mac = hmac_sha256 (bytes_of ''supersecret'')
     (bytes_of (Method ex_signed @ Path (URL ex_signed) @ timeStr_of ex_signed)) \<and>
   Validate go_time ex_validator (later 59 ex_clock) ex_signed ''supersecret'' = (True, None) \<and>
   Validate go_time ex_validator (later 60 ex_clock) ex_signed ''supersecret''
     = (False, Some ExpiredAccess)"
proof -
  have 4: "timeStr_of ex_signed \<noteq> []" by (simp add: timeStr_ex_signed)
  note h = not_is_empty_ex_signed sigStr_ex_signed_nonempty Decode_ex_signed 4
    Parse_ex_signed ex_mac_eq
  have a: "Validate go_time ex_validator (later 59 ex_clock) ex_signed ''supersecret''
      = (True, None)"
    using window_test [OF h, of ex_validator "later 59 ex_clock"]
    by (simp add: Unix_later Unix_ex_clock ex_validator_def NewValidator_def)
  have b: "Validate go_time ex_validator (later 60 ex_clock) ex_signed ''supersecret''
      = (False, Some ExpiredAccess)"
    using window_test [OF h, of ex_validator "later 60 ex_clock"]
    by (simp add: Unix_later Unix_ex_clock ex_validator_def NewValidator_def)
  from h a b show ?thesis by blast
qed

section \<open>What \<open>AddAuthHeaders\<close> leaves alone, and what it writes on fresh headers\<close>

lemma stale_headers_example:
  "sigStr_of (AddAuthHeaders go_time ex_generator ex_clock ex_stale) = ''deadbeef'' \<and>
   sigStr_of (AddAuthHeaders go_time ex_generator ex_clock ex_stale)
     \<noteq> GenerateSHA256HMAC (g_secret ex_generator)
          [Method ex_stale, Path (URL ex_stale), Format_RFC3339 go_time ex_clock] \<and>
   timeStr_of (AddAuthHeaders go_time ex_generator ex_clock ex_stale) = ''2025-06-01T12:00:00Z'' \<and>
   Format_RFC3339 go_time ex_clock = ''2025-06-01T12:34:56Z'' \<and>
   timeStr_of (AddAuthHeaders go_time ex_generator ex_clock ex_stale)
     \<noteq> Format_RFC3339 go_time ex_clock"
proof -
  have a: "sigStr_of (AddAuthHeaders go_time ex_generator ex_clock ex_stale) = ''deadbeef''"
    by (simp add: Header_Get_Values Values_signature_AddAuthHeaders Values_signature_ex_stale)
  have b: "''deadbeef'' \<noteq> GenerateSHA256HMAC (g_secret ex_generator)
          [Method ex_stale, Path (URL ex_stale), Format_RFC3339 go_time ex_clock]"
  proof
    assume eq: "''deadbeef'' = GenerateSHA256HMAC (g_secret ex_generator)
          [Method ex_stale, Path (URL ex_stale), Format_RFC3339 go_time ex_clock]"
    have "length ''deadbeef'' = length (GenerateSHA256HMAC (g_secret ex_generator)
          [Method ex_stale, Path (URL ex_stale), Format_RFC3339 go_time ex_clock])"
      by (rule arg_cong [OF eq])
    then show False by (simp add: length_GenerateSHA256HMAC)
  qed
  have c: "timeStr_of (AddAuthHeaders go_time ex_generator ex_clock ex_stale)
      = ''2025-06-01T12:00:00Z''"
    by (simp add: Header_Get_Values Values_timestamp_AddAuthHeaders Values_timestamp_ex_stale)
  from a b c Format_ex_clock show ?thesis by simp
qed


lemma AddAuthHeaders_frame_and_fresh_headers:
  "Method (AddAuthHeaders L g now r) = Method r \<and>
   URL (AddAuthHeaders L g now r) = URL r \<and>
   Request.more (AddAuthHeaders L g now r) = Request.more r \<and>
   (k \<noteq> ''X-Signature'' \<and> k \<noteq> ''X-Api-Key-Id'' \<and> k \<noteq> ''X-Timestamp'' \<longrightarrow>
      Mapping.lookup (Header (AddAuthHeaders L g now r)) k = Mapping.lookup (Header r) k) \<and>
   (Header_Values (Header r) ''x-signature'' = [] \<longrightarrow>
      sigStr_of (AddAuthHeaders L g now r) =
        EncodeToString (hmac_sha256 (bytes_of (g_secret g))
          (bytes_of (Method r @ Path (URL r) @ Format_RFC3339 L now)))) \<and>
   (Header_Values (Header r) ''x-api-key-id'' = [] \<longrightarrow>
      Header_Get (Header (AddAuthHeaders L g now r)) ''x-api-key-id'' = g_id g) \<and>
   (Header_Values (Header r) ''x-timestamp'' = [] \<longrightarrow>
      timeStr_of (AddAuthHeaders L g now r) = Format_RFC3339 L now)"
proof -
  have more: "Request.more (AddAuthHeaders L g now r) = Request.more r"
    by (simp add: AddAuthHeaders_def Let_def)
  have other: "k \<noteq> ''X-Signature'' \<and> k \<noteq> ''X-Api-Key-Id'' \<and> k \<noteq> ''X-Timestamp'' \<longrightarrow>
      Mapping.lookup (Header (AddAuthHeaders L g now r)) k = Mapping.lookup (Header r) k"
    by (simp add: Header_AddAuthHeaders Header_Add_def canon_signature canon_timestamp
          canon_api_key_id lookup_update')
  have sg: "Header_Values (Header r) ''x-signature'' = [] \<longrightarrow>
      sigStr_of (AddAuthHeaders L g now r) =
        EncodeToString (hmac_sha256 (bytes_of (g_secret g))
          (bytes_of (Method r @ Path (URL r) @ Format_RFC3339 L now)))"
    by (simp add: sigStr_AddAuthHeaders_fresh GenerateSHA256HMAC_def generateSHA256HMAC_three)
  from Method_AddAuthHeaders [of L g now r] URL_AddAuthHeaders [of L g now r] more other sg
    api_key_id_AddAuthHeaders_fresh [of r L g now] timeStr_AddAuthHeaders_fresh [of r L g now]
  show ?thesis by blast
qed

lemma fresh_headers_example:
  "Header_Values (Header ex_request) ''x-signature'' = [] \<and>
   Header_Values (Header ex_request) ''x-api-key-id'' = [] \<and>
   Header_Values (Header ex_request) ''x-timestamp'' = [] \<and>
   ''Accept'' \<noteq> ''X-Signature'' \<and> ''Accept'' \<noteq> ''X-Api-Key-Id'' \<and> ''Accept'' \<noteq> ''X-Timestamp'' \<and>
   Method ex_signed = ''GET'' \<and>
   URL ex_signed = URL ex_request \<and>
   Mapping.lookup (Header ex_signed) ''Accept'' = None \<and>
   sigStr_of ex_signed =
     EncodeToString (hmac_sha256 (bytes_of ''supersecret'')
       (bytes_of ''GET/resource2025-06-01T12:34:56Z'')) \<and>
   Header_Get (Header ex_signed) ''x-api-key-id'' = ''test-key'' \<and>
   timeStr_of ex_signed = ''2025-06-01T12:34:56Z''"
proof -
  have a: "Header_Values (Header ex_request) ''x-signature'' = []" by (rule Values_ex_request)
  have b: "Header_Values (Header ex_request) ''x-api-key-id'' = []" by (rule Values_ex_request)
  have c: "Header_Values (Header ex_request) ''x-timestamp'' = []" by (rule Values_ex_request)
  have d: "''Accept'' \<noteq> ''X-Signature'' \<and> ''Accept'' \<noteq> ''X-Api-Key-Id'' \<and> ''Accept'' \<noteq> ''X-Timestamp''"
    by simp
  have e: "Mapping.lookup (Header ex_request) ''Accept'' = None"
    by (simp add: ex_request_def)
  from AddAuthHeaders_frame_and_fresh_headers [of go_time ex_generator ex_clock ex_request "''Accept''"] a b c d e
  show ?thesis
    by (simp add: ex_signed_def Method_ex_request Path_ex_request Format_ex_clock
          ex_generator_def NewGenerator_def)
qed

section \<open>The same with the sum of the integers, when it fits in \<open>int64\<close>\<close>

lemma round_trip_within_int64:
  assumes "Header_Values (Header r) ''x-signature'' = []"
      and "Header_Values (Header r) ''x-timestamp'' = []"
      and "Format_RFC3339 L now \<noteq> []"
      and "Parse_RFC3339 L (Format_RFC3339 L now) = Inr ts"
      and "Unix L ts = Unix L now"
      and fits: "- (2 ^ 63) \<le> sint (Unix L now) + sint (validity v)"
                "sint (Unix L now) + sint (validity v) < 2 ^ 63"
      and window: "sint (Unix L clock) < sint (Unix L now) + sint (validity v)"
  shows "Validate L v clock (AddAuthHeaders L (NewGenerator i s) now r) s = (True, None)"
proof -
  have "sint (Unix L clock) < sint (Unix L now + validity v)"
    using window by (simp only: sint_sum_no_overflow [OF fits])
  with assms(1-5) show ?thesis by (rule signed_request_validates)
qed

lemma window_boundary_within_int64:
  assumes "\<not> Mapping.is_empty (Header r)"
      and "sigStr_of r \<noteq> []"
      and "DecodeString (sigStr_of r) = Some sig"
      and "timeStr_of r \<noteq> []"
      and "Parse_RFC3339 L (timeStr_of r) = Inr ts"
      and "sig = hmac_sha256 (bytes_of secret) (bytes_of (Method r @ Path (URL r) @ timeStr_of r))"
      and fits: "- (2 ^ 63) \<le> sint (Unix L ts) + sint (validity v)"
                "sint (Unix L ts) + sint (validity v) < 2 ^ 63"
  shows "Validate L v clock r secret =
           (if sint (Unix L clock) < sint (Unix L ts) + sint (validity v)
            then (True, None) else (False, Some ExpiredAccess))"
  using window_test [OF assms(1-6), of v clock]
  by (simp only: sint_sum_no_overflow [OF fits])

section \<open>The digest of the bundled test, block by block\<close>

text \<open>
  The key of 17 bytes is padded to one block; the inner message (the padded key XOR
  \<open>0x36\<close>, then the 51 bytes of the three fields) and the outer message (the padded key
  XOR \<open>0x5c\<close>, then the inner digest) fill two blocks each. Every step below is
  evaluated by rewriting with the definitions.
\<close>

lemmas block_eval_defs = pad256_def bytes_of_def be4_def be8_def be32_def hmac_key_def
  replicate_numeral

lemmas compress_eval_defs = compress_def H256_def K256_def schedule_def sched_step_def sched_word_def
  ssig0_def ssig1_def rotr_def shr_def bsig0_def bsig1_def Ch_def Maj_def not32_def add32_def
  T1_def T2_def round256_def round_upd_def

lemma kv_inner_blocks:
  "map words_of (blocks (pad256 (map (\<lambda>b. b XOR 0x36) (hmac_key (bytes_of ''mysupersecretcode''))
      @ bytes_of ''POST/api/service1/v1/scope/abc/test/test11748410688'')))
   = [[1531921731, 1179862085, 1398096979, 1112889682, 1396061750, 909522486,
     909522486, 909522486, 909522486, 909522486, 909522486, 909522486,
     909522486, 909522486, 909522486, 909522486],
      [1347375956, 794914921, 796091762, 1986618213, 825194033, 796091247,
     1885679457, 1650667380, 1702065199, 1952805748, 825308980, 942944560,
     909654144, 0, 0, 920]]"
  by (simp add: block_eval_defs)

lemma kv_inner_compress_1:
  "compress H256
     [1531921731, 1179862085, 1398096979, 1112889682, 1396061750, 909522486,
     909522486, 909522486, 909522486, 909522486, 909522486, 909522486,
     909522486, 909522486, 909522486, 909522486]
   = [271139774, 3100956722, 2315307242, 786741892, 768438907, 3123254214,
     3337918429, 2486154087]"
  by (simp add: compress_eval_defs)

lemma kv_inner_compress_2:
  "compress [271139774, 3100956722, 2315307242, 786741892, 768438907, 3123254214,
     3337918429, 2486154087]
     [1347375956, 794914921, 796091762, 1986618213, 825194033, 796091247,
     1885679457, 1650667380, 1702065199, 1952805748, 825308980, 942944560,
     909654144, 0, 0, 920]
   = [4068008434, 2181199713, 2300689375, 2063008983, 2813939729, 4057296207,
     1766789853, 3321396860]"
  by (simp add: compress_eval_defs)

lemma kv_inner_digest:
  "sha256 (map (\<lambda>b. b XOR 0x36) (hmac_key (bytes_of ''mysupersecretcode'')) @ bytes_of ''POST/api/service1/v1/scope/abc/test/test11748410688'')
   = [242, 120, 225, 242, 130, 2, 119, 97, 137, 33, 187, 223, 122, 247, 4, 215,
     167, 185, 80, 17, 241, 213, 109, 79, 105, 79, 18, 221, 197, 248, 126, 124]"
  by (simp add: sha256_def kv_inner_blocks kv_inner_compress_1 kv_inner_compress_2 be4_def)

lemma kv_outer_blocks:
  "map words_of (blocks (pad256 (map (\<lambda>b. b XOR 0x5c) (hmac_key (bytes_of ''mysupersecretcode''))
      @ [242, 120, 225, 242, 130, 2, 119, 97, 137, 33, 187, 223, 122, 247, 4, 215,
     167, 185, 80, 17, 241, 213, 109, 79, 105, 79, 18, 221, 197, 248, 126, 124])))
   = [[824520489, 741944879, 960441913, 675230520, 962354268, 1549556828,
     1549556828, 1549556828, 1549556828, 1549556828, 1549556828, 1549556828,
     1549556828, 1549556828, 1549556828, 1549556828],
      [4068008434, 2181199713, 2300689375, 2063008983, 2813939729, 4057296207,
     1766789853, 3321396860, 2147483648, 0, 0, 0,
     0, 0, 0, 768]]"
  by (simp add: block_eval_defs)

lemma kv_outer_compress_1:
  "compress H256
     [824520489, 741944879, 960441913, 675230520, 962354268, 1549556828,
     1549556828, 1549556828, 1549556828, 1549556828, 1549556828, 1549556828,
     1549556828, 1549556828, 1549556828, 1549556828]
   = [2666415793, 1903719464, 1086361668, 1823736688, 3583827212, 611371780,
     107826551, 53880455]"
  by (simp add: compress_eval_defs)

lemma kv_outer_compress_2:
  "compress [2666415793, 1903719464, 1086361668, 1823736688, 3583827212, 611371780,
     107826551, 53880455]
     [4068008434, 2181199713, 2300689375, 2063008983, 2813939729, 4057296207,
     1766789853, 3321396860, 2147483648, 0, 0, 0,
     0, 0, 0, 768]
   = [740728151, 800942898, 1264545457, 3473325782, 135377978, 2187603295,
     2135133029, 369928712]"
  by (simp add: compress_eval_defs)

lemma kv_hmac:
  "hmac_sha256 (bytes_of ''mysupersecretcode'') (bytes_of ''POST/api/service1/v1/scope/abc/test/test11748410688'')
   = [44, 38, 157, 87, 47, 189, 107, 50, 75, 95, 110, 177, 207, 6, 190, 214,
     8, 17, 180, 58, 130, 100, 45, 95, 127, 67, 139, 101, 22, 12, 170, 8]"
proof -
  have "hmac_sha256 (bytes_of ''mysupersecretcode'') (bytes_of ''POST/api/service1/v1/scope/abc/test/test11748410688'')
    = sha256 (map (\<lambda>b. b XOR 0x5c) (hmac_key (bytes_of ''mysupersecretcode''))
        @ [242, 120, 225, 242, 130, 2, 119, 97, 137, 33, 187, 223, 122, 247, 4, 215,
     167, 185, 80, 17, 241, 213, 109, 79, 105, 79, 18, 221, 197, 248, 126, 124])"
    by (simp only: hmac_sha256_def kv_inner_digest)
  also have "\<dots> = [44, 38, 157, 87, 47, 189, 107, 50, 75, 95, 110, 177, 207, 6, 190, 214,
     8, 17, 180, 58, 130, 100, 45, 95, 127, 67, 139, 101, 22, 12, 170, 8]"
    by (simp add: sha256_def kv_outer_blocks kv_outer_compress_1 kv_outer_compress_2 be4_def)
  finally show ?thesis .
qed

section \<open>The claims\<close>

text \<open>
  \<^bold>\<open>C1\<close> (round trip) holds while the signing second plus the window fits in
  \<open>int64\<close> (\<open>round_trip_within_int64\<close>), not for every window of at least one
  second: the source adds the two without a check. With the window
  \<open>9223372036854775807\<close> the request signed at 12:34:56 and validated in that same
  second, which is before the signing second plus the window, is rejected with
  "expired access"; the validator of window 60 accepts it.
\<close>

theorem round_trip_expired_by_overflow:
  "Header_Values (Header ex_request) ''x-signature'' = [] \<and>
   Header_Values (Header ex_request) ''x-timestamp'' = [] \<and>
   1 \<le> sint (validity ex_forever) \<and>
   sint (Unix go_time ex_clock) < sint (Unix go_time ex_clock) + sint (validity ex_forever) \<and>
   Validate go_time ex_validator ex_clock
      (AddAuthHeaders go_time ex_generator ex_clock ex_request) ''supersecret''
     = (True, None) \<and>
   Validate go_time ex_forever ex_clock
      (AddAuthHeaders go_time ex_generator ex_clock ex_request) ''supersecret''
     = (False, Some ExpiredAccess)"
proof -
  have a: "Header_Values (Header ex_request) ''x-signature'' = []" by (rule Values_ex_request)
  have b: "Header_Values (Header ex_request) ''x-timestamp'' = []" by (rule Values_ex_request)
  have c: "1 \<le> sint (validity ex_forever)" by (simp add: ex_forever_def NewValidator_def)
  have d: "sint (Unix go_time ex_clock) < sint (Unix go_time ex_clock) + sint (validity ex_forever)"
    by (simp add: Unix_ex_clock ex_forever_def NewValidator_def)
  have t4: "timeStr_of ex_signed \<noteq> []" by (simp add: timeStr_ex_signed)
  have w: "sint (Unix go_time ex_clock) < sint (Unix go_time ex_clock + validity ex_validator)"
    by (simp add: Unix_ex_clock ex_validator_def NewValidator_def)
  have x: "sint (Unix go_time ex_clock + validity ex_forever) \<le> sint (Unix go_time ex_clock)"
    by (simp add: Unix_ex_clock ex_forever_def NewValidator_def)
  have e: "Validate go_time ex_validator ex_clock ex_signed ''supersecret'' = (True, None)"
    by (rule Validate_accepted [OF not_is_empty_ex_signed sigStr_ex_signed_nonempty
          Decode_ex_signed t4 Parse_ex_signed w ex_mac_eq])
  have f: "Validate go_time ex_forever ex_clock ex_signed ''supersecret''
      = (False, Some ExpiredAccess)"
    by (rule Validate_expired [OF not_is_empty_ex_signed sigStr_ex_signed_nonempty
          Decode_ex_signed t4 Parse_ex_signed x])
  from a b c d e f show ?thesis by (simp add: ex_signed_def)
qed

text \<open>
  \<^bold>\<open>C2\<close> (acceptance if and only if every check passes) holds with the window test
  as the source computes it (\<open>Validate_outcomes\<close>), not with the sum of the integers:
  for the signed request, one second after signing and with the window
  \<open>9223372036854775807\<close>, there is a header, the signature is present and
  hexadecimal, the timestamp is present and parses, the clock second is strictly less
  than the parsed second plus the window, the signature is the HMAC-SHA256 of method,
  path and timestamp header, and \<open>Validate\<close> returns \<open>false\<close> with "expired access".
\<close>

theorem all_checks_pass_yet_rejected:
  "\<not> Mapping.is_empty (Header ex_signed) \<and>
   sigStr_of ex_signed \<noteq> [] \<and>
   DecodeString (sigStr_of ex_signed) = Some ex_mac \<and>
   timeStr_of ex_signed \<noteq> [] \<and>
   Parse_RFC3339 go_time (timeStr_of ex_signed) = Inr ex_clock \<and>
   sint (Unix go_time (later 1 ex_clock))
     < sint (Unix go_time ex_clock) + sint (validity ex_forever) \<and>
   ex_mac = hmac_sha256 (bytes_of ''supersecret'')
     (bytes_of (Method ex_signed @ Path (URL ex_signed) @ timeStr_of ex_signed)) \<and>
   Validate go_time ex_forever (later 1 ex_clock) ex_signed ''supersecret''
     = (False, Some ExpiredAccess) \<and>
   Validate go_time ex_forever (later 1 ex_clock) ex_signed ''supersecret'' \<noteq> (True, None)"
proof -
  have 4: "timeStr_of ex_signed \<noteq> []" by (simp add: timeStr_ex_signed)
  have 6: "sint (Unix go_time (later 1 ex_clock))
     < sint (Unix go_time ex_clock) + sint (validity ex_forever)"
    by (simp add: Unix_later Unix_ex_clock ex_forever_def NewValidator_def)
  have x: "sint (Unix go_time ex_clock + validity ex_forever)
      \<le> sint (Unix go_time (later 1 ex_clock))"
    by (simp add: Unix_later Unix_ex_clock ex_forever_def NewValidator_def)
  have v: "Validate go_time ex_forever (later 1 ex_clock) ex_signed ''supersecret''
      = (False, Some ExpiredAccess)"
    by (rule Validate_expired [OF not_is_empty_ex_signed sigStr_ex_signed_nonempty
          Decode_ex_signed 4 Parse_ex_signed x])
  from not_is_empty_ex_signed sigStr_ex_signed_nonempty Decode_ex_signed 4 Parse_ex_signed 6
    ex_mac_eq v
  show ?thesis by simp
qed

text \<open>
  \<^bold>\<open>C3\<close> (known vector). \<open>GenerateSHA256HMAC\<close> with the secret "mysupersecretcode" and
  the fields "POST", "/api/service1/v1/scope/abc/test/test1", "1748410688" returns
  \<open>2c269d572fbd6b324b5f6eb1cf06bed60811b43a82642d5f7f438b65160caa08\<close>, the digest the first
  bundled test expects, and so not the digest \<open>04a41d00...\<close> that the second bundled
  test expects for the same input.
\<close>

theorem known_vector:
  "GenerateSHA256HMAC ''mysupersecretcode''
     [''POST'', ''/api/service1/v1/scope/abc/test/test1'', ''1748410688'']
   = ''2c269d572fbd6b324b5f6eb1cf06bed60811b43a82642d5f7f438b65160caa08'' \<and>
   GenerateSHA256HMAC ''mysupersecretcode''
     [''POST'', ''/api/service1/v1/scope/abc/test/test1'', ''1748410688'']
   \<noteq> ''04a41d00f2f133c8746d11c7d3d5bfc547fc514b583e3798b1df2c9c09204461''"
proof -
  have "generateSHA256HMAC ''mysupersecretcode''
     [''POST'', ''/api/service1/v1/scope/abc/test/test1'', ''1748410688'']
   = [44, 38, 157, 87, 47, 189, 107, 50, 75, 95, 110, 177, 207, 6, 190, 214,
     8, 17, 180, 58, 130, 100, 45, 95, 127, 67, 139, 101, 22, 12, 170, 8]"
    by (simp add: generateSHA256HMAC_def kv_hmac)
  then have "GenerateSHA256HMAC ''mysupersecretcode''
     [''POST'', ''/api/service1/v1/scope/abc/test/test1'', ''1748410688'']
   = ''2c269d572fbd6b324b5f6eb1cf06bed60811b43a82642d5f7f438b65160caa08''"
    by (simp add: GenerateSHA256HMAC_def hextable_def)
  then show ?thesis by simp
qed

text \<open>
  \<^bold>\<open>C4\<close> (what is signed). The digest is taken over the bytes of the method, of the path
  and of the timestamp text, one after the other with nothing between them. The
  signer appends the hexadecimal text of that digest, computed with the text it also
  appends as \<open>x-timestamp\<close>. The validator accepts only if the decoded signature is
  the digest of method, path and the \<open>x-timestamp\<close> header as it reads it: it never
  formats a time (its result is the same whatever \<open>Format\<close> is). Of the URL only the
  path is read: scheme, host and query change neither the result of \<open>Validate\<close> nor
  the headers \<open>AddAuthHeaders\<close> writes.
\<close>

theorem canonical_signature_input:
  "generateSHA256HMAC secret [m, p, t]
     = hmac_sha256 (bytes_of secret) (bytes_of m @ bytes_of p @ bytes_of t) \<and>
   Header_Values (Header (AddAuthHeaders L g now r)) ''x-signature''
     = Header_Values (Header r) ''x-signature''
       @ [EncodeToString (hmac_sha256 (bytes_of (g_secret g))
            (bytes_of (Method r) @ bytes_of (Path (URL r)) @ bytes_of (Format_RFC3339 L now)))] \<and>
   Header_Values (Header (AddAuthHeaders L g now r)) ''x-timestamp''
     = Header_Values (Header r) ''x-timestamp'' @ [Format_RFC3339 L now] \<and>
   (Validate L v clock r secret = (True, None) \<longrightarrow>
      DecodeString (sigStr_of r)
        = Some (hmac_sha256 (bytes_of secret)
            (bytes_of (Method r) @ bytes_of (Path (URL r)) @ bytes_of (timeStr_of r)))) \<and>
   Validate (L\<lparr>Format_RFC3339 := fmt\<rparr>) v clock r secret = Validate L v clock r secret \<and>
   Validate L v clock (r\<lparr>URL := (URL r)\<lparr>Scheme := sc, Host := ho, RawQuery := q\<rparr>\<rparr>) secret
     = Validate L v clock r secret \<and>
   Header (AddAuthHeaders L g now (r\<lparr>URL := (URL r)\<lparr>Scheme := sc, Host := ho, RawQuery := q\<rparr>\<rparr>))
     = Header (AddAuthHeaders L g now r)"
proof -
  have a: "generateSHA256HMAC secret [m, p, t]
     = hmac_sha256 (bytes_of secret) (bytes_of m @ bytes_of p @ bytes_of t)"
    by (simp add: generateSHA256HMAC_def bytes_of_append)
  have b: "Header_Values (Header (AddAuthHeaders L g now r)) ''x-signature''
     = Header_Values (Header r) ''x-signature''
       @ [EncodeToString (hmac_sha256 (bytes_of (g_secret g))
            (bytes_of (Method r) @ bytes_of (Path (URL r)) @ bytes_of (Format_RFC3339 L now)))]"
    by (simp add: Values_signature_AddAuthHeaders GenerateSHA256HMAC_def generateSHA256HMAC_def
          bytes_of_append)
  have c: "Header_Values (Header (AddAuthHeaders L g now r)) ''x-timestamp''
     = Header_Values (Header r) ''x-timestamp'' @ [Format_RFC3339 L now]"
    by (rule Values_timestamp_AddAuthHeaders)
  have d: "Validate L v clock r secret = (True, None) \<longrightarrow>
      DecodeString (sigStr_of r)
        = Some (hmac_sha256 (bytes_of secret)
            (bytes_of (Method r) @ bytes_of (Path (URL r)) @ bytes_of (timeStr_of r)))"
  proof
    assume "Validate L v clock r secret = (True, None)"
    from Validate_true_only_if [OF this]
    show "DecodeString (sigStr_of r)
        = Some (hmac_sha256 (bytes_of secret)
            (bytes_of (Method r) @ bytes_of (Path (URL r)) @ bytes_of (timeStr_of r)))"
      by (auto simp: bytes_of_append)
  qed
  have e: "Validate (L\<lparr>Format_RFC3339 := fmt\<rparr>) v clock r secret = Validate L v clock r secret"
    by (simp add: Validate_def Let_def split: option.splits sum.splits)
  have f: "Validate L v clock (r\<lparr>URL := (URL r)\<lparr>Scheme := sc, Host := ho, RawQuery := q\<rparr>\<rparr>) secret
     = Validate L v clock r secret"
    by (rule Validate_cong) simp_all
  have g: "Header (AddAuthHeaders L g now (r\<lparr>URL := (URL r)\<lparr>Scheme := sc, Host := ho, RawQuery := q\<rparr>\<rparr>))
     = Header (AddAuthHeaders L g now r)"
    by (simp add: Header_AddAuthHeaders)
  show ?thesis
    by (intro conjI) (rule a, rule b, rule c, rule d, rule e, rule f, rule g)
qed

theorem canonical_signature_input_witness:
  "Validate go_time ex_validator (later 30 ex_clock) ex_signed ''supersecret'' = (True, None) \<and>
   DecodeString (sigStr_of ex_signed)
     = Some (hmac_sha256 (bytes_of ''supersecret'')
         (bytes_of ''GET'' @ bytes_of ''/resource'' @ bytes_of ''2025-06-01T12:34:56Z'')) \<and>
   Header_Values (Header ex_signed) ''x-signature''
     = [EncodeToString (hmac_sha256 (bytes_of ''supersecret'')
         (bytes_of ''GET'' @ bytes_of ''/resource'' @ bytes_of ''2025-06-01T12:34:56Z''))] \<and>
   Header_Values (Header ex_signed) ''x-timestamp'' = [''2025-06-01T12:34:56Z'']"
proof -
  have 4: "timeStr_of ex_signed \<noteq> []" by (simp add: timeStr_ex_signed)
  have 6: "sint (Unix go_time (later 30 ex_clock))
             < sint (Unix go_time ex_clock + validity ex_validator)"
    by (simp add: Unix_later Unix_ex_clock ex_validator_def NewValidator_def)
  have v: "Validate go_time ex_validator (later 30 ex_clock) ex_signed ''supersecret''
      = (True, None)"
    by (rule Validate_accepted [OF not_is_empty_ex_signed sigStr_ex_signed_nonempty
          Decode_ex_signed 4 Parse_ex_signed 6 ex_mac_eq])
  note T = canonical_signature_input
      [where L = go_time and v = ex_validator and clock = "later 30 ex_clock"
         and r = ex_signed and secret = "''supersecret''"]
  from T v have d: "DecodeString (sigStr_of ex_signed)
     = Some (hmac_sha256 (bytes_of ''supersecret'')
         (bytes_of ''GET'' @ bytes_of ''/resource'' @ bytes_of ''2025-06-01T12:34:56Z''))"
    by (simp add: Method_ex_signed Path_ex_signed timeStr_ex_signed)
  note S = canonical_signature_input
      [where L = go_time and g = ex_generator and now = ex_clock and r = ex_request]
  from S have s: "Header_Values (Header ex_signed) ''x-signature''
     = [EncodeToString (hmac_sha256 (bytes_of ''supersecret'')
         (bytes_of ''GET'' @ bytes_of ''/resource'' @ bytes_of ''2025-06-01T12:34:56Z''))]"
    by (simp add: ex_signed_def Values_ex_request Method_ex_request Path_ex_request
          Format_ex_clock ex_generator_def NewGenerator_def)
  from v d s Values_timestamp_ex_signed show ?thesis by simp
qed

text \<open>
  \<^bold>\<open>C5\<close> (window boundary) holds while the parsed second plus the window fits in
  \<open>int64\<close> (\<open>window_boundary_within_int64\<close>, with the rejection at the boundary
  itself), not for every window: with the window \<open>9223372036854775807\<close> and the
  timestamp of second 1748781296, \<open>Validate\<close> at the clock second 1748781326, which
  is strictly less than the sum, rejects with "expired access" the request that the
  validator of window 60 accepts at that second.
\<close>

theorem below_window_end_yet_expired:
  "Parse_RFC3339 go_time (timeStr_of ex_signed) = Inr ex_clock \<and>
   sint (Unix go_time ex_clock) = 1748781296 \<and>
   sint (validity ex_forever) = 9223372036854775807 \<and>
   sint (Unix go_time (later 30 ex_clock)) = 1748781326 \<and>
   sint (Unix go_time (later 30 ex_clock))
     < sint (Unix go_time ex_clock) + sint (validity ex_forever) \<and>
   Validate go_time ex_validator (later 30 ex_clock) ex_signed ''supersecret'' = (True, None) \<and>
   Validate go_time ex_forever (later 30 ex_clock) ex_signed ''supersecret''
     = (False, Some ExpiredAccess)"
proof -
  have 4: "timeStr_of ex_signed \<noteq> []" by (simp add: timeStr_ex_signed)
  have a: "sint (Unix go_time ex_clock) = 1748781296" by (simp add: Unix_ex_clock)
  have b: "sint (validity ex_forever) = 9223372036854775807"
    by (simp add: ex_forever_def NewValidator_def)
  have c: "sint (Unix go_time (later 30 ex_clock)) = 1748781326" by (simp add: Unix_later)
  have w: "sint (Unix go_time (later 30 ex_clock))
      < sint (Unix go_time ex_clock + validity ex_validator)"
    by (simp add: Unix_later Unix_ex_clock ex_validator_def NewValidator_def)
  have x: "sint (Unix go_time ex_clock + validity ex_forever)
      \<le> sint (Unix go_time (later 30 ex_clock))"
    by (simp add: Unix_later Unix_ex_clock ex_forever_def NewValidator_def)
  have e: "Validate go_time ex_validator (later 30 ex_clock) ex_signed ''supersecret''
      = (True, None)"
    by (rule Validate_accepted [OF not_is_empty_ex_signed sigStr_ex_signed_nonempty
          Decode_ex_signed 4 Parse_ex_signed w ex_mac_eq])
  have f: "Validate go_time ex_forever (later 30 ex_clock) ex_signed ''supersecret''
      = (False, Some ExpiredAccess)"
    by (rule Validate_expired [OF not_is_empty_ex_signed sigStr_ex_signed_nonempty
          Decode_ex_signed 4 Parse_ex_signed x])
  from Parse_ex_signed a b c e f show ?thesis by simp
qed

text \<open>
  \<^bold>\<open>C6\<close> (timestamps in the future pass the window check) holds when the sum of the
  parsed second and the window fits in \<open>int64\<close> (\<open>future_timestamp_within_int64\<close>);
  the source adds the two without a check. With the window \<open>9223372036854775807\<close> the
  request signed for 12:35:00, four seconds after the clock, which the validator of
  window 60 accepts, is rejected with "expired access".
\<close>

theorem future_timestamp_expired_by_overflow:
  "sint (Unix go_time ex_clock) < sint (Unix go_time (later 4 ex_clock)) \<and>
   0 \<le> sint (validity ex_forever) \<and>
   timeStr_of (AddAuthHeaders go_time ex_generator (later 4 ex_clock) ex_request)
     = ''2025-06-01T12:35:00Z'' \<and>
   Validate go_time ex_validator ex_clock
      (AddAuthHeaders go_time ex_generator (later 4 ex_clock) ex_request) ''supersecret''
     = (True, None) \<and>
   Validate go_time ex_forever ex_clock
      (AddAuthHeaders go_time ex_generator (later 4 ex_clock) ex_request) ''supersecret''
     = (False, Some ExpiredAccess)"
proof -
  let ?r = "AddAuthHeaders go_time ex_generator (later 4 ex_clock) ex_request"
  have a: "sint (Unix go_time ex_clock) < sint (Unix go_time (later 4 ex_clock))"
    by (simp add: Unix_later Unix_ex_clock)
  have b: "0 \<le> sint (validity ex_forever)"
    by (simp add: ex_forever_def NewValidator_def)
  have t: "timeStr_of ?r = ''2025-06-01T12:35:00Z''"
    by (simp add: timeStr_AddAuthHeaders_fresh Values_ex_request Format_later_4)
  have s: "sigStr_of ?r = GenerateSHA256HMAC ''supersecret''
      [Method ex_request, Path (URL ex_request), ''2025-06-01T12:35:00Z'']"
    by (simp add: sigStr_AddAuthHeaders_fresh Values_ex_request Format_later_4
          ex_generator_def NewGenerator_def)
  have 1: "\<not> Mapping.is_empty (Header ?r)" by (rule not_is_empty_AddAuthHeaders)
  have 2: "sigStr_of ?r \<noteq> []" by (simp only: s GenerateSHA256HMAC_nonempty not_False_eq_True)
  have 3: "DecodeString (sigStr_of ?r) = Some (generateSHA256HMAC ''supersecret''
      [Method ex_request, Path (URL ex_request), ''2025-06-01T12:35:00Z''])"
    by (simp only: s DecodeString_GenerateSHA256HMAC)
  have 4: "timeStr_of ?r \<noteq> []" by (simp add: t)
  have 5: "Parse_RFC3339 go_time (timeStr_of ?r) = Inr (later 4 ex_clock)"
    by (simp only: t Parse_later_4)
  have 6: "sint (Unix go_time ex_clock)
      < sint (Unix go_time (later 4 ex_clock) + validity ex_validator)"
    by (simp add: Unix_later Unix_ex_clock ex_validator_def NewValidator_def)
  have 7: "generateSHA256HMAC ''supersecret''
      [Method ex_request, Path (URL ex_request), ''2025-06-01T12:35:00Z'']
      = hmac_sha256 (bytes_of ''supersecret'')
          (bytes_of (Method ?r @ Path (URL ?r) @ timeStr_of ?r))"
    by (simp only: t Method_AddAuthHeaders URL_AddAuthHeaders generateSHA256HMAC_three)
  have 8: "sint (Unix go_time (later 4 ex_clock) + validity ex_forever)
      \<le> sint (Unix go_time ex_clock)"
    by (simp add: Unix_later Unix_ex_clock ex_forever_def NewValidator_def)
  have c: "Validate go_time ex_validator ex_clock ?r ''supersecret'' = (True, None)"
    by (rule Validate_accepted [OF 1 2 3 4 5 6 7])
  have d: "Validate go_time ex_forever ex_clock ?r ''supersecret'' = (False, Some ExpiredAccess)"
    by (rule Validate_expired [OF 1 2 3 4 5 8])
  from a b t c d show ?thesis by simp
qed

text \<open>
  \<^bold>\<open>C7\<close> as stated (a request with a header and no \<open>x-timestamp\<close> always fails with
  "missing timestamp header") does not hold: the request \<open>ex_plain\<close> has one header,
  no \<open>x-timestamp\<close> and no \<open>x-signature\<close>, and \<open>Validate\<close> fails with "missing
  signature header".
\<close>

theorem missing_timestamp_counterexample:
  "\<not> Mapping.is_empty (Header ex_plain) \<and>
   Header_Values (Header ex_plain) ''x-timestamp'' = [] \<and>
   Validate go_time ex_validator ex_clock ex_plain ''supersecret''
     = (False, Some MissingSignatureHeader) \<and>
   Validate go_time ex_validator ex_clock ex_plain ''supersecret''
     \<noteq> (False, Some MissingTimestampHeader)"
proof -
  have a: "\<not> Mapping.is_empty (Header ex_plain)"
    by (simp add: ex_plain_def not_is_empty_Header_Add)
  have b: "Header_Values (Header ex_plain) ''x-timestamp'' = []"
    by (simp add: ex_plain_def Values_Add_empty canon_Accept canon_timestamp)
  have s: "sigStr_of ex_plain = []"
    by (simp add: ex_plain_def Header_Get_Values Values_Add_empty canon_Accept
          canon_signature)
  have c: "Validate go_time ex_validator ex_clock ex_plain ''supersecret''
     = (False, Some MissingSignatureHeader)"
    by (rule Validate_no_signature [OF a s])
  from a b c show ?thesis by simp
qed

text \<open>
  \<^bold>\<open>C7\<close>, amended. For a request that has a header and no \<open>x-timestamp\<close> header:
  when \<open>x-signature\<close> reads empty (the header is absent), \<open>Validate\<close> fails with
  "missing signature header"; when \<open>x-signature\<close> reads non-empty and decodes as
  hexadecimal, \<open>Validate\<close> fails with "missing timestamp header". Nothing is said of a
  signature that is not hexadecimal.
\<close>

theorem missing_timestamp_after_signature_checks:
  assumes "\<not> Mapping.is_empty (Header r)"
      and "Header_Values (Header r) ''x-timestamp'' = []"
  shows "(sigStr_of r = [] \<longrightarrow>
            Validate L v clock r secret = (False, Some MissingSignatureHeader)) \<and>
         (sigStr_of r \<noteq> [] \<and> DecodeString (sigStr_of r) = Some sig \<longrightarrow>
            Validate L v clock r secret = (False, Some MissingTimestampHeader))"
proof -
  have t: "timeStr_of r = []" by (simp add: Header_Get_Values assms(2))
  show ?thesis
    using Validate_no_signature [OF assms(1), of L v clock secret]
      Validate_no_timestamp [OF assms(1) _ _ t, of sig L v clock secret]
    by blast
qed

theorem missing_timestamp_after_signature_checks_witness:
  "\<not> Mapping.is_empty (Header ex_signature_only) \<and>
   Header_Values (Header ex_signature_only) ''x-timestamp'' = [] \<and>
   sigStr_of ex_signature_only \<noteq> [] \<and>
   DecodeString (sigStr_of ex_signature_only) = Some [0xde, 0xad, 0xbe, 0xef] \<and>
   Validate go_time ex_validator ex_clock ex_signature_only ''supersecret''
     = (False, Some MissingTimestampHeader)"
proof -
  have a: "\<not> Mapping.is_empty (Header ex_signature_only)"
    by (simp add: ex_signature_only_def not_is_empty_Header_Add)
  have b: "Header_Values (Header ex_signature_only) ''x-timestamp'' = []"
    by (simp add: ex_signature_only_def Values_Add_empty canon_signature canon_timestamp)
  have s: "sigStr_of ex_signature_only = ''deadbeef''"
    by (simp add: ex_signature_only_def Header_Get_Values Values_Add_empty)
  have c: "sigStr_of ex_signature_only \<noteq> []" by (simp add: s)
  have d: "DecodeString (sigStr_of ex_signature_only) = Some [0xde, 0xad, 0xbe, 0xef]"
    by (simp only: s Decode_deadbeef)
  from missing_timestamp_after_signature_checks
    [OF a b, where sig = "[0xde, 0xad, 0xbe, 0xef]" and L = go_time and v = ex_validator
       and clock = ex_clock and secret = "''supersecret''"]
    a b c d
  show ?thesis by blast
qed

text \<open>
  \<^bold>\<open>C8\<close> (the signer sets the three headers) holds for a request that carries none
  of them (\<open>AddAuthHeaders_frame_and_fresh_headers\<close>), not for every request: the source
  calls \<open>Header.Add\<close>, which appends. In the bundled test the signature is overwritten
  with \<open>deadbeef\<close> and the request is signed again "to get a valid signature"; the
  new signature becomes the second value of \<open>x-signature\<close>, the header still reads
  \<open>deadbeef\<close>, and \<open>Validate\<close> returns "invalid hmac signature".
\<close>

theorem resigned_request_reads_stale_signature:
  "sigStr_of test_tampered = ''deadbeef'' \<and>
   sigStr_of test_resigned = ''deadbeef'' \<and>
   sigStr_of test_resigned
     \<noteq> GenerateSHA256HMAC (g_secret ex_generator)
          [Method test_tampered, Path (URL test_tampered), Format_RFC3339 go_time ex_clock] \<and>
   Header_Values (Header test_resigned) ''x-signature''
     = [''deadbeef'',
        GenerateSHA256HMAC (g_secret ex_generator)
          [Method test_tampered, Path (URL test_tampered), Format_RFC3339 go_time ex_clock]] \<and>
   Validate go_time ex_validator ex_clock test_resigned ''supersecret''
     = (False, Some InvalidHmacSignature)"
proof -
  let ?new = "GenerateSHA256HMAC (g_secret ex_generator)
          [Method test_tampered, Path (URL test_tampered), Format_RFC3339 go_time ex_clock]"
  have vs: "Header_Values (Header test_tampered) ''x-signature'' = [''deadbeef'']"
    by (simp add: test_tampered_def Header_Values_Set)
  have vt: "Header_Values (Header test_tampered) ''x-timestamp'' = [''2025-06-01T12:34:56Z'']"
    by (simp add: test_tampered_def Header_Values_Set canon_signature canon_timestamp
          Values_timestamp_ex_signed)
  have a: "sigStr_of test_tampered = ''deadbeef''" by (simp add: Header_Get_Values vs)
  have v2: "Header_Values (Header test_resigned) ''x-signature'' = [''deadbeef'', ?new]"
    by (simp add: test_resigned_def Values_signature_AddAuthHeaders vs)
  have b: "sigStr_of test_resigned = ''deadbeef''" by (simp add: Header_Get_Values v2)
  have c: "''deadbeef'' \<noteq> ?new"
  proof
    assume eq: "''deadbeef'' = ?new"
    have "length ''deadbeef'' = length ?new" by (rule arg_cong [OF eq])
    then show False by (simp add: length_GenerateSHA256HMAC)
  qed
  have t: "timeStr_of test_resigned = ''2025-06-01T12:34:56Z''"
    by (simp add: test_resigned_def Header_Get_Values Values_timestamp_AddAuthHeaders vt)
  have 1: "\<not> Mapping.is_empty (Header test_resigned)"
    by (simp add: test_resigned_def not_is_empty_AddAuthHeaders)
  have 2: "sigStr_of test_resigned \<noteq> []" by (simp add: b)
  have 3: "DecodeString (sigStr_of test_resigned) = Some [0xde, 0xad, 0xbe, 0xef]"
    by (simp only: b Decode_deadbeef)
  have 4: "timeStr_of test_resigned \<noteq> []" by (simp add: t)
  have 5: "Parse_RFC3339 go_time (timeStr_of test_resigned) = Inr ex_clock"
    by (simp only: t Parse_ex_clock)
  have 6: "sint (Unix go_time ex_clock) < sint (Unix go_time ex_clock + validity ex_validator)"
    by (simp add: Unix_ex_clock ex_validator_def NewValidator_def)
  have 7: "[0xde, 0xad, 0xbe, 0xef] \<noteq> hmac_sha256 (bytes_of ''supersecret'')
      (bytes_of (Method test_resigned @ Path (URL test_resigned) @ timeStr_of test_resigned))"
    using Decode_deadbeef_not_mac by simp
  have d: "Validate go_time ex_validator ex_clock test_resigned ''supersecret''
     = (False, Some InvalidHmacSignature)"
    by (rule Validate_mismatch [OF 1 2 3 4 5 6 7])
  from a b c v2 d show ?thesis by simp
qed

text \<open>
  \<^bold>\<open>C10\<close> (signing again does not replace). \<open>AddAuthHeaders\<close> appends with
  \<open>Header.Add\<close> and \<open>Validate\<close> reads with \<open>Header.Get\<close>, the first value. For a
  request that already carries a value of \<open>x-signature\<close> and one of \<open>x-timestamp\<close>,
  the signature and the timestamp the validator reads after another call of
  \<open>AddAuthHeaders\<close> are the ones it read before, and so is the result of \<open>Validate\<close>.
\<close>

theorem resigning_keeps_first_values:
  assumes sg: "Header_Values (Header r) ''x-signature'' \<noteq> []"
      and tm: "Header_Values (Header r) ''x-timestamp'' \<noteq> []"
  shows "sigStr_of (AddAuthHeaders L g now r) = sigStr_of r \<and>
         timeStr_of (AddAuthHeaders L g now r) = timeStr_of r \<and>
         Validate L v clock (AddAuthHeaders L g now r) secret = Validate L v clock r secret"
proof -
  let ?r = "AddAuthHeaders L g now r"
  have 1: "sigStr_of ?r = sigStr_of r" by (rule sigStr_AddAuthHeaders_stale [OF sg])
  have 2: "timeStr_of ?r = timeStr_of r" by (rule timeStr_AddAuthHeaders_stale [OF tm])
  have "\<not> Mapping.is_empty (Header r)" by (rule Header_Values_not_empty [OF sg])
  then have 3: "Mapping.is_empty (Header ?r) = Mapping.is_empty (Header r)"
    by (simp add: not_is_empty_AddAuthHeaders)
  have 4: "Method ?r = Method r" by (rule Method_AddAuthHeaders)
  have 5: "Path (URL ?r) = Path (URL r)" by (simp add: URL_AddAuthHeaders)
  from 1 2 Validate_cong [OF 3 1 2 4 5, of L v clock secret] show ?thesis by simp
qed

theorem resigning_keeps_first_values_witness:
  "Header_Values (Header ex_signed) ''x-signature'' \<noteq> [] \<and>
   Header_Values (Header ex_signed) ''x-timestamp'' \<noteq> [] \<and>
   sigStr_of (AddAuthHeaders go_time ex_generator (later 120 ex_clock) ex_signed)
     = sigStr_of ex_signed \<and>
   timeStr_of (AddAuthHeaders go_time ex_generator (later 120 ex_clock) ex_signed)
     = ''2025-06-01T12:34:56Z'' \<and>
   Validate go_time ex_validator (later 120 ex_clock)
       (AddAuthHeaders go_time ex_generator (later 120 ex_clock) ex_signed) ''supersecret''
     = Validate go_time ex_validator (later 120 ex_clock) ex_signed ''supersecret''"
proof -
  have a: "Header_Values (Header ex_signed) ''x-signature'' \<noteq> []"
    by (simp add: Values_signature_ex_signed)
  have b: "Header_Values (Header ex_signed) ''x-timestamp'' \<noteq> []"
    by (simp add: Values_timestamp_ex_signed)
  from resigning_keeps_first_values [OF a b, of go_time ex_generator "later 120 ex_clock"
      ex_validator "later 120 ex_clock" "''supersecret''"] a b
  show ?thesis by (simp add: timeStr_ex_signed)
qed

end
